theory Spec2Isabelle
  imports Main "HOL-Library.Log_Nat" "HOL-Library.Product_Lexorder" "HOL-Library.Multiset"
begin

section \<open>Python values: errors, strings, lists\<close>

text \<open>
  The bank statement extractor is a Python program. A Python \<open>str\<close> is a sequence of
  Unicode code points, so a string is a list of natural numbers here; \<open>ascii\<close> embeds an
  ASCII literal. The Czech marker texts of the source are written with their code points
  (for example 345 is r with caron, 237 is i with acute).

  An exception is a value \<open>Inl e\<close> of a sum type. Nothing in the repository catches an
  exception raised while a statement is read (the only handler, in
  \<open>load_transactions_json\<close>, catches \<open>FileNotFoundError\<close>), so a raised exception ends the
  run and the state it leaves behind is never observed.
\<close>

datatype error = IndexError | ValueError | TypeError | AttributeError

type_synonym pystr = "nat list"

definition ascii :: "string \<Rightarrow> pystr" where
  "ascii s = map of_char s"

definition ebind :: "error + 'a \<Rightarrow> ('a \<Rightarrow> error + 'b) \<Rightarrow> error + 'b" where
  "ebind m f = (case m of Inl e \<Rightarrow> Inl e | Inr x \<Rightarrow> f x)"

text \<open>\<open>xs[i]\<close>: a negative index counts from the end, an index out of range raises.\<close>

definition py_index :: "'a list \<Rightarrow> int \<Rightarrow> error + 'a" where
  "py_index xs i =
     (if 0 \<le> i \<and> i < int (length xs) then Inr (xs ! nat i)
      else if i < 0 \<and> - int (length xs) \<le> i then Inr (xs ! nat (int (length xs) + i))
      else Inl IndexError)"

text \<open>\<open>s.startswith(p)\<close> and \<open>sub in s\<close>.\<close>

fun startswith :: "pystr \<Rightarrow> pystr \<Rightarrow> bool" where
  "startswith s [] = True"
| "startswith [] (p # ps) = False"
| "startswith (c # cs) (p # ps) = (c = p \<and> startswith cs ps)"

fun str_contains :: "pystr \<Rightarrow> pystr \<Rightarrow> bool" where
  "str_contains sub [] = (sub = [])"
| "str_contains sub (c # cs) = (startswith (c # cs) sub \<or> str_contains sub cs)"

text \<open>
  \<open>str.isspace\<close> of one code point: the white space of the Unicode character database,
  which \<open>str.strip()\<close>, \<open>float\<close>, \<open>int\<close> and the regular expression class \<open>\s\<close> share.
\<close>

definition isspace :: "nat \<Rightarrow> bool" where
  "isspace c \<longleftrightarrow>
     (9 \<le> c \<and> c \<le> 13) \<or> (28 \<le> c \<and> c \<le> 32) \<or> c = 133 \<or> c = 160 \<or> c = 5760 \<or>
     (8192 \<le> c \<and> c \<le> 8202) \<or> c = 8232 \<or> c = 8233 \<or> c = 8239 \<or> c = 8287 \<or> c = 12288"

definition str_strip :: "pystr \<Rightarrow> pystr" where
  "str_strip s = rev (dropWhile isspace (rev (dropWhile isspace s)))"

text \<open>
  \<open>s.replace(old, new)\<close>: the occurrences of \<open>old\<close> are replaced from the left, without
  overlap. For an empty \<open>old\<close> Python puts \<open>new\<close> before every character and at the end.
\<close>

function repl :: "pystr \<Rightarrow> pystr \<Rightarrow> pystr \<Rightarrow> pystr" where
  "repl old new [] = []"
| "repl old new (c # cs) =
     (if old \<noteq> [] \<and> startswith (c # cs) old
      then new @ repl old new (drop (length old) (c # cs))
      else c # repl old new cs)"
  by pat_completeness auto
termination
  by (relation "measure (\<lambda>(old, new, s). length s)") auto

definition str_replace :: "pystr \<Rightarrow> pystr \<Rightarrow> pystr \<Rightarrow> pystr" where
  "str_replace old new s =
     (if old = [] then new @ concat (map (\<lambda>c. c # new) s) else repl old new s)"

text \<open>\<open>s.split(sep)\<close> for a separator of one character: empty fields are kept.\<close>

fun str_split :: "nat \<Rightarrow> pystr \<Rightarrow> pystr list" where
  "str_split sep [] = [[]]"
| "str_split sep (c # cs) =
     (if c = sep then [] # str_split sep cs
      else (case str_split sep cs of [] \<Rightarrow> [[c]] | w # ws \<Rightarrow> (c # w) # ws))"

text \<open>\<open>s[-4:]\<close>: the last four characters, the whole string when it is shorter.\<close>

definition last4 :: "pystr \<Rightarrow> pystr" where
  "last4 s = drop (length s - 4) s"

text \<open>
  \<open>s.lower()\<close>. The ASCII capitals are mapped to their small letters and the Kelvin sign
  (U+212A) to \<open>k\<close>; these are the only code points whose lower case is an ASCII letter.
  Every other code point is left as it is: the case mapping of the other non-ASCII
  letters is outside this model, and never yields an ASCII character.
\<close>

definition lower_char :: "nat \<Rightarrow> nat" where
  "lower_char c = (if 65 \<le> c \<and> c \<le> 90 then c + 32 else if c = 8490 then 107 else c)"

definition str_lower :: "pystr \<Rightarrow> pystr" where
  "str_lower s = map lower_char s"

text \<open>
  The decimal digits. Python's \<open>int\<close>, \<open>float\<close>, \<open>str.isdigit\<close> and the regular expression
  class \<open>\d\<close> also accept the decimal digits of other scripts; the model knows the ASCII
  digits only, so a string with a digit of another script is not a number here.
\<close>

definition is_digit :: "nat \<Rightarrow> bool" where
  "is_digit c \<longleftrightarrow> 48 \<le> c \<and> c \<le> 57"

definition str_isdigit :: "pystr \<Rightarrow> bool" where
  "str_isdigit s \<longleftrightarrow> s \<noteq> [] \<and> list_all is_digit s"

definition digits_val :: "pystr \<Rightarrow> nat" where
  "digits_val ds = foldl (\<lambda>a c. 10 * a + (c - 48)) 0 ds"

text \<open>
  An underscore in a numeric literal must stand between two digits. \<open>underscores_ok\<close> walks
  the string with the previous character, as the interpreter does.
\<close>

fun underscores_ok :: "nat \<Rightarrow> pystr \<Rightarrow> bool" where
  "underscores_ok prev [] = (prev \<noteq> 95)"
| "underscores_ok prev (c # cs) =
     ((if c = 95 then is_digit prev else (prev = 95 \<longrightarrow> is_digit c)) \<and> underscores_ok c cs)"

text \<open>An optional sign in front of a number: the flag says the sign is a minus.\<close>

fun split_sign :: "pystr \<Rightarrow> bool \<times> pystr" where
  "split_sign [] = (False, [])"
| "split_sign (c # cs) =
     (if c = 45 then (True, cs) else if c = 43 then (False, cs) else (False, c # cs))"

text \<open>\<open>int(s)\<close> in base ten.\<close>

definition py_int :: "pystr \<Rightarrow> error + int" where
  "py_int s =
     (let (neg, body) = split_sign (str_strip s);
          ds = filter (\<lambda>c. c \<noteq> 95) body
      in if underscores_ok 0 body \<and> str_isdigit ds
         then Inr ((if neg then - 1 else 1) * int (digits_val ds))
         else Inl ValueError)"

section \<open>Python floats\<close>

text \<open>
  A Python \<open>float\<close> is an IEEE 754 binary64 number. A finite one is held as the rational
  number it denotes; \<open>binary64\<close> rounds a rational to the nearest representable number,
  ties to the even significand, with gradual underflow and overflow to an infinity. The
  two zeros are not told apart (they compare equal in Python and differ only in how
  they print).
\<close>

datatype pyfloat = Finite rat | PosInf | NegInf | NaN

definition pow2 :: "int \<Rightarrow> rat" where
  "pow2 e = (if 0 \<le> e then 2 ^ nat e else 1 / 2 ^ nat (- e))"

definition pow10 :: "int \<Rightarrow> rat" where
  "pow10 e = (if 0 \<le> e then 10 ^ nat e else 1 / 10 ^ nat (- e))"

text \<open>\<open>ilog2 x\<close> is the exponent \<open>e\<close> with \<open>2^e \<le> |x| < 2^(e+1)\<close>, for \<open>x \<noteq> 0\<close>.\<close>

definition ilog2 :: "rat \<Rightarrow> int" where
  "ilog2 x =
     (let p = fst (quotient_of \<bar>x\<bar>); q = snd (quotient_of \<bar>x\<bar>);
          d = bitlen p - bitlen q
      in if pow2 d \<le> \<bar>x\<bar> then d else d - 1)"

definition round_half_even :: "rat \<Rightarrow> int" where
  "round_half_even x =
     (let f = \<lfloor>x\<rfloor>; d = x - of_int f
      in if d < 1 / 2 then f else if 1 / 2 < d then f + 1 else if even f then f else f + 1)"

definition round_at :: "int \<Rightarrow> rat \<Rightarrow> pyfloat" where
  "round_at e x =
     (let q = pow2 (max e (- 1022) - 52);
          r = of_int (round_half_even (x / q)) * q
      in if pow2 1024 \<le> \<bar>r\<bar> then (if 0 < x then PosInf else NegInf) else Finite r)"

definition binary64 :: "rat \<Rightarrow> pyfloat" where
  "binary64 x = (if x = 0 then Finite 0 else round_at (ilog2 x) x)"

text \<open>Negation, addition, subtraction and the comparisons the program uses.\<close>

fun fneg :: "pyfloat \<Rightarrow> pyfloat" where
  "fneg (Finite x) = Finite (- x)"
| "fneg PosInf = NegInf"
| "fneg NegInf = PosInf"
| "fneg NaN = NaN"

fun fadd :: "pyfloat \<Rightarrow> pyfloat \<Rightarrow> pyfloat" where
  "fadd (Finite x) (Finite y) = binary64 (x + y)"
| "fadd NaN b = NaN"
| "fadd a NaN = NaN"
| "fadd PosInf NegInf = NaN"
| "fadd NegInf PosInf = NaN"
| "fadd PosInf b = PosInf"
| "fadd NegInf b = NegInf"
| "fadd a PosInf = PosInf"
| "fadd a NegInf = NegInf"

definition fsub :: "pyfloat \<Rightarrow> pyfloat \<Rightarrow> pyfloat" where
  "fsub a b = fadd a (fneg b)"

text \<open>\<open>a < b\<close>: false when either side is not a number.\<close>

fun flt :: "pyfloat \<Rightarrow> pyfloat \<Rightarrow> bool" where
  "flt NaN b = False"
| "flt a NaN = False"
| "flt (Finite x) (Finite y) = (x < y)"
| "flt NegInf b = (b \<noteq> NegInf)"
| "flt a PosInf = (a \<noteq> PosInf)"
| "flt a b = False"

text \<open>\<open>a != b\<close>: true when either side is not a number.\<close>

definition fne :: "pyfloat \<Rightarrow> pyfloat \<Rightarrow> bool" where
  "fne a b \<longleftrightarrow> a = NaN \<or> b = NaN \<or> a \<noteq> b"

text \<open>
  \<open>round(x, 2)\<close>: the interpreter rounds the exact value of \<open>x\<close> to two decimal places, ties
  to even, and converts the decimal result back to the nearest float. An infinity and
  a NaN are returned as they are.
\<close>

fun py_round2 :: "pyfloat \<Rightarrow> pyfloat" where
  "py_round2 (Finite x) = binary64 (of_int (round_half_even (x * 100)) / 100)"
| "py_round2 a = a"

text \<open>
  \<open>sum(xs)\<close> over floats, starting from 0 and adding from the left. (From Python 3.12 on
  the interpreter adds with compensation; the theorems below do not depend on how the sum
  is formed.)
\<close>

definition py_sum :: "pyfloat list \<Rightarrow> pyfloat" where
  "py_sum xs = foldl fadd (Finite 0) xs"

text \<open>
  \<open>float(s)\<close>: white space around the number is skipped, underscores between digits are
  dropped, then an optional sign and either \<open>inf\<close>, \<open>infinity\<close>, \<open>nan\<close> in any case, or a
  decimal number with an optional fraction and an optional exponent. The value is rounded
  to the nearest float.
\<close>

definition parse_exponent :: "pystr \<Rightarrow> int option" where
  "parse_exponent r =
     (case r of
        [] \<Rightarrow> Some 0
      | c # r' \<Rightarrow>
          if c = 101 \<or> c = 69
          then (let (neg, ds) = split_sign r'
                in if str_isdigit ds then Some ((if neg then - 1 else 1) * int (digits_val ds))
                   else None)
          else None)"

definition parse_decimal :: "pystr \<Rightarrow> rat option" where
  "parse_decimal s =
     (let ip = takeWhile is_digit s; r1 = dropWhile is_digit s;
          fp = (case r1 of [] \<Rightarrow> [] | c # r \<Rightarrow> if c = 46 then takeWhile is_digit r else []);
          r2 = (case r1 of [] \<Rightarrow> [] | c # r \<Rightarrow> if c = 46 then dropWhile is_digit r else r1)
      in if ip = [] \<and> fp = [] then None
         else (case parse_exponent r2 of
                 None \<Rightarrow> None
               | Some ex \<Rightarrow> Some (of_nat (digits_val (ip @ fp)) * pow10 (ex - int (length fp)))))"

definition py_float :: "pystr \<Rightarrow> error + pyfloat" where
  "py_float s =
     (if \<not> underscores_ok 0 s then Inl ValueError
      else
        let (neg, body) = split_sign (str_strip (filter (\<lambda>c. c \<noteq> 95) s));
            low = str_lower body
        in if low = ascii ''inf'' \<or> low = ascii ''infinity''
           then Inr (if neg then NegInf else PosInf)
           else if low = ascii ''nan'' then Inr NaN
           else (case parse_decimal body of
                   None \<Rightarrow> Inl ValueError
                 | Some q \<Rightarrow> Inr (binary64 (if neg then - q else q))))"

section \<open>helper_functions.py\<close>

text \<open>
  \<open>pdf_amount_to_float\<close>: the spaces and the no-break spaces (code point 160) are removed,
  a comma becomes a dot, the text is converted by \<open>float\<close> and rounded to two places.
\<close>

definition pdf_amount_to_float :: "pystr \<Rightarrow> error + pyfloat" where
  "pdf_amount_to_float amount_text =
     ebind (py_float (str_replace [44] [46] (str_replace [160] [] (str_replace [32] [] amount_text))))
       (\<lambda>x. Inr (py_round2 x))"

text \<open>
  \<open>get_amount_line\<close>: the first line from \<open>search_from_line_index\<close> on that holds a sign
  or is the text \<open>0.00\<close>, and is made of digits once signs, spaces, dots and commas are
  taken out. The index returned counts from \<open>search_from_line_index\<close>; \<open>None\<close> stands for
  the pair \<open>(None, None)\<close>.
\<close>

definition is_amount_line :: "pystr \<Rightarrow> bool" where
  "is_amount_line line \<longleftrightarrow>
     (str_contains [45] line \<or> str_contains [43] line \<or> line = ascii ''0.00'') \<and>
     str_isdigit
       (str_replace [44] [] (str_replace [46] [] (str_replace [160] [] (str_replace [32] []
         (str_replace [45] [] (str_replace [43] [] line))))))"

fun find_line :: "(pystr \<Rightarrow> bool) \<Rightarrow> nat \<Rightarrow> pystr list \<Rightarrow> (pystr \<times> nat) option" where
  "find_line P i [] = None"
| "find_line P i (l # ls) = (if P l then Some (l, i) else find_line P (Suc i) ls)"

definition get_amount_line :: "pystr list \<Rightarrow> nat \<Rightarrow> (pystr \<times> nat) option" where
  "get_amount_line lines search_from_line_index =
     find_line is_amount_line 0 (drop search_from_line_index lines)"

text \<open>
  \<open>text_contains_date\<close>: the leftmost match of \<open>\b\d{2}\.\d{2}\.\d{4}\b\<close>. A match starts
  and ends with a digit, so the word boundaries ask that the character before and the
  character after the match, when there is one, is not a word character. Word characters
  are the letters, digits and the underscore; the model has those of the ASCII, Latin-1
  and Latin Extended-A and B blocks, and takes a code point from U+0250 on as no word
  character.
\<close>

definition is_word_char :: "nat \<Rightarrow> bool" where
  "is_word_char c \<longleftrightarrow>
     is_digit c \<or> (65 \<le> c \<and> c \<le> 90) \<or> c = 95 \<or> (97 \<le> c \<and> c \<le> 122) \<or>
     c = 170 \<or> c = 178 \<or> c = 179 \<or> c = 181 \<or> c = 185 \<or> c = 186 \<or> (188 \<le> c \<and> c \<le> 190) \<or>
     (192 \<le> c \<and> c \<le> 214) \<or> (216 \<le> c \<and> c \<le> 246) \<or> (248 \<le> c \<and> c \<le> 591)"

fun date_shape :: "pystr \<Rightarrow> bool" where
  "date_shape [d1, d2, p1, m1, m2, p2, y1, y2, y3, y4] \<longleftrightarrow>
     is_digit d1 \<and> is_digit d2 \<and> p1 = 46 \<and> is_digit m1 \<and> is_digit m2 \<and> p2 = 46 \<and>
     is_digit y1 \<and> is_digit y2 \<and> is_digit y3 \<and> is_digit y4"
| "date_shape s \<longleftrightarrow> False"

fun date_scan :: "nat option \<Rightarrow> pystr \<Rightarrow> pystr option" where
  "date_scan prev [] = None"
| "date_scan prev (c # cs) =
     (if date_shape (take 10 (c # cs)) \<and>
         (case prev of None \<Rightarrow> True | Some p \<Rightarrow> \<not> is_word_char p) \<and>
         (case drop 10 (c # cs) of [] \<Rightarrow> True | n # r \<Rightarrow> \<not> is_word_char n)
      then Some (take 10 (c # cs))
      else date_scan (Some c) cs)"

definition text_contains_date :: "pystr \<Rightarrow> pystr option" where
  "text_contains_date text = date_scan None text"

text \<open>
  \<open>get_account_nr_line\<close>: the first line from \<open>search_from_line_index\<close> on in which
  \<open>\d{4}/\d{4}\<close> matches somewhere; the line is returned stripped.
\<close>

fun account_shape :: "pystr \<Rightarrow> bool" where
  "account_shape (a1 # a2 # a3 # a4 # sl # b1 # b2 # b3 # b4 # r) \<longleftrightarrow>
     is_digit a1 \<and> is_digit a2 \<and> is_digit a3 \<and> is_digit a4 \<and> sl = 47 \<and>
     is_digit b1 \<and> is_digit b2 \<and> is_digit b3 \<and> is_digit b4"
| "account_shape s \<longleftrightarrow> False"

fun has_account_nr :: "pystr \<Rightarrow> bool" where
  "has_account_nr [] \<longleftrightarrow> False"
| "has_account_nr (c # cs) \<longleftrightarrow> account_shape (c # cs) \<or> has_account_nr cs"

definition get_account_nr_line :: "pystr list \<Rightarrow> nat \<Rightarrow> (pystr \<times> nat) option" where
  "get_account_nr_line extracted_lines search_from_line_index =
     (case find_line has_account_nr 0 (drop search_from_line_index extracted_lines) of
        None \<Rightarrow> None
      | Some (line, i) \<Rightarrow> Some (str_strip line, i))"

text \<open>
  \<open>datetime.strptime\<close>. A directive matches one of the alternatives of its regular
  expression, and the whole text must be used up: \<open>%Y\<close> four digits, \<open>%m\<close> \<open>1[0-2]\<close>,
  \<open>0[1-9]\<close> or \<open>[1-9]\<close>, \<open>%d\<close> \<open>3[0-1]\<close>, \<open>[1-2]\d\<close>, \<open>0[1-9]\<close>, \<open>[1-9]\<close> or a space
  and \<open>[1-9]\<close>, \<open>%H\<close> \<open>2[0-3]\<close>, \<open>[0-1]\d\<close> or \<open>\d\<close>, \<open>%M\<close> \<open>[0-5]\d\<close> or \<open>\d\<close>, \<open>%S\<close>
  \<open>6[0-1]\<close>, \<open>[0-5]\d\<close> or \<open>\d\<close>. The date must exist in the calendar, the year must not
  be 0 and the second must be below 60; everything else raises \<open>ValueError\<close>.
\<close>

definition tok_Y :: "pystr \<Rightarrow> nat option" where
  "tok_Y s = (if length s = 4 \<and> list_all is_digit s then Some (digits_val s) else None)"

fun tok_m :: "pystr \<Rightarrow> nat option" where
  "tok_m [a] = (if 49 \<le> a \<and> a \<le> 57 then Some (a - 48) else None)"
| "tok_m [a, b] =
     (if a = 49 \<and> 48 \<le> b \<and> b \<le> 50 then Some (10 + (b - 48))
      else if a = 48 \<and> 49 \<le> b \<and> b \<le> 57 then Some (b - 48)
      else None)"
| "tok_m s = None"

fun tok_d :: "pystr \<Rightarrow> nat option" where
  "tok_d [a] = (if 49 \<le> a \<and> a \<le> 57 then Some (a - 48) else None)"
| "tok_d [a, b] =
     (if a = 51 \<and> 48 \<le> b \<and> b \<le> 49 then Some (30 + (b - 48))
      else if 49 \<le> a \<and> a \<le> 50 \<and> is_digit b then Some (10 * (a - 48) + (b - 48))
      else if (a = 48 \<or> a = 32) \<and> 49 \<le> b \<and> b \<le> 57 then Some (b - 48)
      else None)"
| "tok_d s = None"

fun tok_H :: "pystr \<Rightarrow> nat option" where
  "tok_H [a] = (if is_digit a then Some (a - 48) else None)"
| "tok_H [a, b] =
     (if a = 50 \<and> 48 \<le> b \<and> b \<le> 51 then Some (20 + (b - 48))
      else if 48 \<le> a \<and> a \<le> 49 \<and> is_digit b then Some (10 * (a - 48) + (b - 48))
      else None)"
| "tok_H s = None"

fun tok_M :: "pystr \<Rightarrow> nat option" where
  "tok_M [a] = (if is_digit a then Some (a - 48) else None)"
| "tok_M [a, b] =
     (if 48 \<le> a \<and> a \<le> 53 \<and> is_digit b then Some (10 * (a - 48) + (b - 48)) else None)"
| "tok_M s = None"

fun tok_S :: "pystr \<Rightarrow> nat option" where
  "tok_S [a] = (if is_digit a then Some (a - 48) else None)"
| "tok_S [a, b] =
     (if a = 54 \<and> 48 \<le> b \<and> b \<le> 49 then Some (60 + (b - 48))
      else if 48 \<le> a \<and> a \<le> 53 \<and> is_digit b then Some (10 * (a - 48) + (b - 48))
      else None)"
| "tok_S s = None"

definition is_leap :: "nat \<Rightarrow> bool" where
  "is_leap y \<longleftrightarrow> y mod 4 = 0 \<and> (y mod 100 \<noteq> 0 \<or> y mod 400 = 0)"

definition days_in_month :: "nat \<Rightarrow> nat \<Rightarrow> nat" where
  "days_in_month y m =
     (if m = 2 then (if is_leap y then 29 else 28)
      else if m = 4 \<or> m = 6 \<or> m = 9 \<or> m = 11 then 30 else 31)"

text \<open>A date as (year, month, day): the lexicographic order is the order of dates.\<close>

type_synonym pydate = "nat \<times> nat \<times> nat"

definition valid_date :: "nat \<Rightarrow> nat \<Rightarrow> nat \<Rightarrow> bool" where
  "valid_date y m d \<longleftrightarrow> 1 \<le> y \<and> 1 \<le> m \<and> m \<le> 12 \<and> 1 \<le> d \<and> d \<le> days_in_month y m"

text \<open>The text up to the first \<open>sep\<close>, and the text after it (\<open>None\<close> without a \<open>sep\<close>).\<close>

definition cut :: "nat \<Rightarrow> pystr \<Rightarrow> (pystr \<times> pystr) option" where
  "cut sep s =
     (case dropWhile (\<lambda>c. c \<noteq> sep) s of
        [] \<Rightarrow> None
      | c # r \<Rightarrow> Some (takeWhile (\<lambda>c. c \<noteq> sep) s, r))"

text \<open>\<open>datetime.strptime(s, "%d.%m.%Y")\<close>, the date part of the result.\<close>

definition strptime_dmY :: "pystr \<Rightarrow> error + pydate" where
  "strptime_dmY s =
     (case cut 46 s of
        None \<Rightarrow> Inl ValueError
      | Some (ds, r) \<Rightarrow>
          (case cut 46 r of
             None \<Rightarrow> Inl ValueError
           | Some (ms, ys) \<Rightarrow>
               (case (tok_d ds, tok_m ms, tok_Y ys) of
                  (Some d, Some m, Some y) \<Rightarrow>
                    if valid_date y m d then Inr (y, m, d) else Inl ValueError
                | _ \<Rightarrow> Inl ValueError)))"

text \<open>
  \<open>get_date_from_string\<close>: \<open>strptime\<close> with \<open>"%Y-%m-%d %H:%M:%S"\<close>, where the blank of the
  format stands for one or more white space characters, then \<open>strftime("%d.%m.%Y")\<close>: day
  and month with two digits, the year as the C library prints it (no leading zeros).
\<close>

definition two_digits :: "nat \<Rightarrow> pystr" where
  "two_digits n = [48 + n div 10, 48 + n mod 10]"

definition strptime_revolut :: "pystr \<Rightarrow> error + (pydate \<times> pystr)" where
  "strptime_revolut s =
     (case cut 45 s of
        None \<Rightarrow> Inl ValueError
      | Some (ys, r1) \<Rightarrow>
          (case cut 45 r1 of
             None \<Rightarrow> Inl ValueError
           | Some (ms, r2) \<Rightarrow>
               (let ds = (case r2 of
                            [] \<Rightarrow> []
                          | c # r \<Rightarrow> if c = 32 then take 2 r2 else takeWhile is_digit r2);
                    r3 = drop (length ds) r2;
                    r4 = dropWhile isspace r3
                in if r3 = r4 then Inl ValueError
                   else
                     (case cut 58 r4 of
                        None \<Rightarrow> Inl ValueError
                      | Some (hs, r5) \<Rightarrow>
                          (case cut 58 r5 of
                             None \<Rightarrow> Inl ValueError
                           | Some (mins, secs) \<Rightarrow>
                               (case (tok_Y ys, tok_m ms, tok_d ds, tok_H hs, tok_M mins, tok_S secs) of
                                  (Some y, Some m, Some d, Some hh, Some mm, Some ss) \<Rightarrow>
                                    if valid_date y m d \<and> ss < 60
                                    then Inr ((y, m, d), dropWhile (\<lambda>c. c = 48) ys)
                                    else Inl ValueError
                                | _ \<Rightarrow> Inl ValueError))))))"

definition get_date_from_string :: "pystr \<Rightarrow> error + pystr" where
  "get_date_from_string date_string =
     ebind (strptime_revolut date_string)
       (\<lambda>((y, m, d), year_text). Inr (two_digits d @ [46] @ two_digits m @ [46] @ year_text))"

section \<open>transactions.py: the transaction classes\<close>

text \<open>
  The dataclass \<open>Transaction\<close> and its subclasses are one record with the class of the
  object in the field \<open>cls\<close>. A field that the class of an object does not declare stays at
  the value \<open>new_tx\<close> gives it and is never read for that object. \<open>None\<close> is \<open>None\<close>.
\<close>

datatype kind =
    IncomingPayment | OutgoingPayment | OutgoingPaymentPeriodic | CardPaymentDebit
  | CardPaymentIncoming | CardAtmCashOut | CardAtmDeposit | BankPayedService
  | InterestPositive | TaxInterest | ElectronicBankingTransfer | DirectDebit

datatype bank = Csob | Cs | Revolut

record transaction =
  cls :: kind
  statement_account :: "pystr option"
  parent_statement :: "pystr option"
  transaction_id :: int
  year :: "pystr option"
  account_from :: "pystr option"
  amount :: pyfloat
  date_booked :: "pystr option"
  account_to :: "pystr option"
  currency :: "pystr option"
  account_from_name :: "pystr option"
  sender_note :: "pystr option"
  variable_symbol :: "int option"
  constant_symbol :: "int option"
  specific_symbol :: "int option"
  all_transaction_lines_text :: "pystr option"
  user_description :: pystr
  user_category :: pystr
  payment_date :: "pystr option"
  card_identifier :: "pystr option"
  vendor_text :: "pystr option"
  card_owner :: "pystr option"
  our_bank_atm :: bool
  cash_out_date :: pystr
  deposit_date :: pystr
  service_type :: "pystr option"

text \<open>
  The keyword arguments of a constructor call: the defaults of the dataclass fields,
  which the caller overrides. \<open>transaction_id\<close> is no argument (\<open>init=False\<close>); the
  constructor assigns it.
\<close>

definition new_tx :: "kind \<Rightarrow> pystr option \<Rightarrow> transaction" where
  "new_tx k sa =
     \<lparr> cls = k, statement_account = sa, parent_statement = None, transaction_id = 0,
       year = None, account_from = None, amount = Finite 0, date_booked = None,
       account_to = None, currency = Some (ascii ''CZK''), account_from_name = None,
       sender_note = None, variable_symbol = None, constant_symbol = None,
       specific_symbol = None, all_transaction_lines_text = Some [], user_description = [],
       user_category = [], payment_date = None, card_identifier = None, vendor_text = None,
       card_owner = None, our_bank_atm = True, cash_out_date = [], deposit_date = [],
       service_type = None \<rparr>"

text \<open>\<open>type(t).__name__\<close>.\<close>

fun class_name :: "kind \<Rightarrow> pystr" where
  "class_name IncomingPayment = ascii ''IncomingPayment''"
| "class_name OutgoingPayment = ascii ''OutgoingPayment''"
| "class_name OutgoingPaymentPeriodic = ascii ''OutgoingPaymentPeriodic''"
| "class_name CardPaymentDebit = ascii ''CardPaymentDebit''"
| "class_name CardPaymentIncoming = ascii ''CardPaymentIncoming''"
| "class_name CardAtmCashOut = ascii ''CardAtmCashOut''"
| "class_name CardAtmDeposit = ascii ''CardAtmDeposit''"
| "class_name BankPayedService = ascii ''BankPayedService''"
| "class_name InterestPositive = ascii ''InterestPositive''"
| "class_name TaxInterest = ascii ''TaxInterest''"
| "class_name ElectronicBankingTransfer = ascii ''ElectronicBankingTransfer''"
| "class_name DirectDebit = ascii ''DirectDebit''"

text \<open>
  The classes that inherit \<open>CardPaymentDebit.__post_init__\<close>, which sets \<open>card_owner\<close> from
  the card identifier.
\<close>

definition is_card_kind :: "kind \<Rightarrow> bool" where
  "is_card_kind k \<longleftrightarrow> k = CardPaymentDebit \<or> k = CardPaymentIncoming \<or> k = CardAtmCashOut"

definition card_owners :: "(pystr \<times> pystr) list" where
  "card_owners =
     [(ascii ''7148'', ascii ''Ondra, '' @ [268] @ ascii ''S, VISA''),
      (ascii ''5567'', ascii ''Ondra, '' @ [268] @ ascii ''SOB, MC''),
      (ascii ''1563'', ascii ''Ondra, '' @ [268] @ ascii ''SOB, MC''),
      (ascii ''9448'', ascii ''Ondra, REVOLUT, MC''),
      (ascii ''0119'', ascii ''M'' @ [225] @ ascii ''ja, '' @ [268] @ ascii ''S, VISA'')]"

definition get_card_owner :: "transaction \<Rightarrow> pystr" where
  "get_card_owner t =
     (case card_identifier t of
        None \<Rightarrow> ascii ''Unknown card''
      | Some c \<Rightarrow> (case map_of card_owners c of None \<Rightarrow> ascii ''Unknown card'' | Some n \<Rightarrow> n))"

text \<open>
  The registry. Objects are shared between \<open>Transaction.all\<close> and the list of the statement
  that produced them, and are changed after they were appended, so an object lives in
  \<open>heap\<close> and the lists hold its address, the position at which it was created.
  \<open>generator_id\<close> is \<open>None\<close> until the first transaction is constructed and then holds
  the next id the generator yields. (The lists \<open>all\<close> of the subclasses are written by the
  constructors and read nowhere; they are left out.)
\<close>

type_synonym ref = nat

record world =
  heap :: "transaction list"
  Transaction_all :: "ref list"
  generator_id :: "int option"

definition empty_world :: world where
  "empty_world = \<lparr> heap = [], Transaction_all = [], generator_id = None \<rparr>"

text \<open>
  A constructor call with the keyword arguments \<open>t\<close>: \<open>__post_init__\<close> sets the card owner
  (card classes), takes the next id from the generator, which starts at 1, and appends
  the new object to \<open>Transaction.all\<close>.
\<close>

definition construct :: "transaction \<Rightarrow> world \<Rightarrow> ref \<times> world" where
  "construct t w =
     (let g = (case generator_id w of None \<Rightarrow> 1 | Some n \<Rightarrow> n);
          t1 = (if is_card_kind (cls t) then t\<lparr>card_owner := Some (get_card_owner t)\<rparr> else t);
          a = length (heap w)
      in (a, w\<lparr>heap := heap w @ [t1\<lparr>transaction_id := g\<rparr>],
               Transaction_all := Transaction_all w @ [a],
               generator_id := Some (g + 1)\<rparr>))"

text \<open>\<open>text_identifiers.get(bank_name)\<close> of each class: the marker texts of a bank.\<close>

fun text_identifiers :: "kind \<Rightarrow> bank option \<Rightarrow> pystr list option" where
  "text_identifiers IncomingPayment (Some Cs) =
     Some [ascii ''P'' @ [345, 237] @ ascii ''choz'' @ [237] @ ascii '' '' @ [250] @ ascii ''hrada'',
           ascii ''Zahrani'' @ [269] @ ascii ''n'' @ [237] @ ascii '' p'' @ [345, 237] @ ascii ''choz''
             @ [237] @ ascii '' '' @ [250] @ ascii ''hrada'']"
| "text_identifiers IncomingPayment (Some Csob) =
     Some [ascii ''P'' @ [345, 237] @ ascii ''choz'' @ [237] @ ascii '' '' @ [250] @ ascii ''hrada'']"
| "text_identifiers OutgoingPayment (Some Csob) =
     Some [ascii ''Odchoz'' @ [237] @ ascii '' '' @ [250] @ ascii ''hrada'']"
| "text_identifiers OutgoingPayment (Some Cs) =
     Some [ascii ''Tuzemsk'' @ [225] @ ascii '' odchoz'' @ [237] @ ascii '' '' @ [250] @ ascii ''hrada'']"
| "text_identifiers OutgoingPaymentPeriodic (Some Cs) =
     Some [ascii ''Trval'' @ [253] @ ascii '' p'' @ [345, 237] @ ascii ''kaz'']"
| "text_identifiers OutgoingPaymentPeriodic (Some Csob) =
     Some [ascii ''Trval'' @ [253] @ ascii '' p'' @ [345, 237] @ ascii ''kaz'']"
| "text_identifiers CardPaymentDebit (Some Csob) =
     Some [ascii ''Transakce platebn'' @ [237] @ ascii '' kartou'']"
| "text_identifiers CardPaymentDebit (Some Cs) = Some [ascii ''Platba kartou'']"
| "text_identifiers CardPaymentIncoming (Some Csob) =
     Some [ascii ''P'' @ [345, 237] @ ascii ''choz'' @ [237] @ ascii '' '' @ [250]
             @ ascii ''hrada kartou'']"
| "text_identifiers CardPaymentIncoming (Some Cs) = Some [ascii ''Vratka platby kartou'']"
| "text_identifiers CardAtmCashOut (Some Cs) =
     Some [ascii ''V'' @ [253] @ ascii ''b'' @ [283] @ ascii ''r hotovosti z bankomatu'']"
| "text_identifiers CardAtmCashOut (Some Csob) = Some [ascii ''PLACEHOLDER'']"
| "text_identifiers CardAtmDeposit (Some Cs) =
     Some [ascii ''Vklad hotovosti p'' @ [345] @ ascii ''es bankomat'']"
| "text_identifiers CardAtmDeposit (Some Csob) = Some [ascii ''PLACEHOLDER'']"
| "text_identifiers BankPayedService (Some Cs) =
     Some [ascii ''Ceny za slu'' @ [382] @ ascii ''by'']"
| "text_identifiers BankPayedService (Some Csob) =
     Some [ascii ''Poplatek-platebn'' @ [237] @ ascii '' karta'']"
| "text_identifiers InterestPositive (Some Cs) =
     Some [ascii ''Kreditn'' @ [237] @ ascii '' '' @ [250] @ ascii ''rok'']"
| "text_identifiers InterestPositive (Some Csob) =
     Some [ascii ''Z'' @ [250, 269] @ ascii ''tov'' @ [225] @ ascii ''n'' @ [237] @ ascii '' kladn''
             @ [253] @ ascii ''ch '' @ [250] @ ascii ''rok'' @ [367]]"
| "text_identifiers TaxInterest (Some Cs) =
     Some [ascii ''Da'' @ [328] @ ascii '' z '' @ [250] @ ascii ''roku'']"
| "text_identifiers TaxInterest (Some Csob) = Some [ascii ''PLACEHOLDER'']"
| "text_identifiers ElectronicBankingTransfer (Some Cs) = Some [ascii ''PLACEHOLDER'']"
| "text_identifiers ElectronicBankingTransfer (Some Csob) =
     Some [ascii ''Bezhotovostn'' @ [237] @ ascii '' p'' @ [345] @ ascii ''evod EB'']"
| "text_identifiers DirectDebit (Some Cs) = Some [ascii ''Inkaso'']"
| "text_identifiers DirectDebit (Some Csob) = Some [ascii ''Inkaso'']"
| "text_identifiers k b = None"

section \<open>constants.py\<close>

text \<open>
  The lines that end the transaction section of a page. In the sixth one the source has a
  no-break space (code point 160) between \<open>V\<close> and the word that follows it.
\<close>

definition TRANSACTION_END_SECTION :: "pystr list" where
  "TRANSACTION_END_SECTION =
     [ascii ''Kone'' @ [269] @ ascii ''n'' @ [253] @ ascii '' z'' @ [367] @ ascii ''statek:'',
      ascii ''Pokra'' @ [269] @ ascii ''ov'' @ [225] @ ascii ''n'' @ [237] @ ascii '' na dal''
        @ [353, 237] @ ascii '' stran'' @ [283],
      ascii ''V'' @ [253] @ ascii ''pis z '' @ [250, 269] @ ascii ''tu'',
      ascii ''Datum'',
      ascii ''Strana:'',
      ascii ''Pros'' @ [237] @ ascii ''me V'' @ [225] @ ascii ''s o v'' @ [269] @ ascii ''asn'' @ [233]
        @ ascii '' p'' @ [345] @ ascii ''ekontrolov'' @ [225] @ ascii ''n'' @ [237] @ ascii '' uveden''
        @ [253] @ ascii ''ch '' @ [250] @ ascii ''daj'' @ [367] @ ascii ''. V'' @ [160] @ ascii ''p'' @ [345, 237]
        @ ascii ''pad'' @ [283] @ ascii '' nesouhlasu kontaktujte pros'' @ [237]
        @ ascii ''m svoje obchodn'' @ [237] @ ascii '' m'' @ [237]
        @ ascii ''sto nebo volejte na telefon'',
      ascii ''V'' @ [225, 382] @ ascii ''en'' @ [225] @ ascii '' klientko, v'' @ [225, 382]
        @ ascii ''en'' @ [253] @ ascii '' kliente,'']"

section \<open>transactions.py: the extraction rules\<close>

text \<open>
  Each class has a static method \<open>create(bank, year, statement_account, account,
  line_index, extracted_text_lines)\<close> that reads the fields of one transaction from the
  lines of a page and calls the constructor last. Here a rule returns the keyword
  arguments of that constructor call; \<open>Inr None\<close> is the \<open>None\<close> a rule returns for a bank
  it has no branch for. The steps that the rules share are written once.

  The booked date: the date in the marker line, else the line before it, stripped; for
  CSOB the year of the statement is appended (\<open>str + None\<close> raises \<open>TypeError\<close>).
\<close>

definition date_cs :: "nat \<Rightarrow> pystr list \<Rightarrow> error + pystr" where
  "date_cs line_index lines =
     ebind (py_index lines (int line_index))
       (\<lambda>l. case text_contains_date l of
               Some d \<Rightarrow> Inr d
             | None \<Rightarrow> ebind (py_index lines (int line_index - 1)) (\<lambda>p. Inr (str_strip p)))"

definition date_csob :: "pystr option \<Rightarrow> nat \<Rightarrow> pystr list \<Rightarrow> error + pystr" where
  "date_csob yr line_index lines =
     ebind (py_index lines (int line_index))
       (\<lambda>l. case text_contains_date l of
               Some d \<Rightarrow> Inr d
             | None \<Rightarrow>
                 ebind (py_index lines (int line_index - 1))
                   (\<lambda>p. case yr of None \<Rightarrow> Inl TypeError | Some y \<Rightarrow> Inr (str_strip p @ y)))"

text \<open>
  \<open>amount_line = get_amount_line(lines, line_index)[0]\<close> and
  \<open>pdf_amount_to_float(amount_line.strip())\<close>: without an amount line \<open>None.strip()\<close> raises
  \<open>AttributeError\<close>.
\<close>

definition amount_by_search :: "pystr list \<Rightarrow> nat \<Rightarrow> error + pyfloat" where
  "amount_by_search lines line_index =
     (case get_amount_line lines line_index of
        None \<Rightarrow> Inl AttributeError
      | Some (amount_line, i) \<Rightarrow> pdf_amount_to_float (str_strip amount_line))"

text \<open>\<open>pdf_amount_to_float(lines[line_index + k].strip())\<close>.\<close>

definition amount_at :: "pystr list \<Rightarrow> int \<Rightarrow> error + pyfloat" where
  "amount_at lines j = ebind (py_index lines j) (\<lambda>l. pdf_amount_to_float (str_strip l))"

text \<open>
  The CSOB rules find the line with the account of the other party and take the amount
  two lines above it: \<open>lines[line_index + index - 2]\<close>. Without an account line the index
  is \<open>None\<close> and the addition raises \<open>TypeError\<close>.
\<close>

definition account_and_amount :: "pystr list \<Rightarrow> nat \<Rightarrow> error + (pystr \<times> pyfloat)" where
  "account_and_amount lines line_index =
     (case get_account_nr_line lines line_index of
        None \<Rightarrow> Inl TypeError
      | Some (account, i) \<Rightarrow>
          ebind (amount_at lines (int line_index + int i - 2)) (\<lambda>a. Inr (account, a)))"

text \<open>\<open>lines[line_index + k].strip()\<close> and \<open>int(lines[line_index + k].strip())\<close>.\<close>

definition line_at :: "pystr list \<Rightarrow> nat \<Rightarrow> nat \<Rightarrow> error + pystr" where
  "line_at lines line_index k = ebind (py_index lines (int line_index + int k)) (\<lambda>l. Inr (str_strip l))"

definition int_at :: "pystr list \<Rightarrow> nat \<Rightarrow> nat \<Rightarrow> error + int" where
  "int_at lines line_index k = ebind (line_at lines line_index k) py_int"

text \<open>
  The card line of a CS statement: \<open>l.split(" ")[0].replace("X", "")\<close> is the card
  identifier and \<open>l.split(" ")[-1].replace("d.tran.", "")\<close> the date of the payment.
\<close>

definition card_of_line :: "pystr \<Rightarrow> pystr" where
  "card_of_line l = str_replace (ascii ''X'') [] (hd (str_split 32 l))"

definition date_of_line :: "pystr \<Rightarrow> pystr" where
  "date_of_line l = str_replace (ascii ''d.tran.'') [] (last (str_split 32 l))"

definition okamzita :: pystr where
  "okamzita = ascii ''okam'' @ [382] @ ascii ''it'' @ [225]"

definition jine_banky :: pystr where
  "jine_banky = ascii ''jin'' @ [233] @ ascii '' banky v '' @ [268] @ ascii ''R''"

definition IncomingPayment_create ::
  "bank option \<Rightarrow> pystr option \<Rightarrow> pystr option \<Rightarrow> pystr option \<Rightarrow> nat \<Rightarrow> pystr list
     \<Rightarrow> error + transaction option" where
  "IncomingPayment_create bnk yr sa acc_to line_index lines =
     (if bnk = Some Cs then
        ebind (date_cs line_index lines) (\<lambda>date.
        ebind (line_at lines line_index 1) (\<lambda>acc_from.
        ebind (amount_by_search lines line_index) (\<lambda>amt.
          Inr (Some ((new_tx IncomingPayment sa)
            \<lparr>year := yr, account_from := Some acc_from, amount := amt,
              date_booked := Some date, account_to := acc_to\<rparr>)))))
      else if bnk = Some Csob then
        ebind (date_csob yr line_index lines) (\<lambda>date.
        ebind (account_and_amount lines line_index) (\<lambda>(acc_from, amt).
          Inr (Some ((new_tx IncomingPayment sa)
            \<lparr>year := yr, account_from := Some acc_from, amount := amt,
              date_booked := Some date, account_to := acc_to\<rparr>))))
      else Inr None)"

definition OutgoingPayment_create ::
  "bank option \<Rightarrow> pystr option \<Rightarrow> pystr option \<Rightarrow> pystr option \<Rightarrow> nat \<Rightarrow> pystr list
     \<Rightarrow> error + transaction option" where
  "OutgoingPayment_create bnk yr sa acc_from line_index lines =
     (if bnk = Some Cs then
        ebind (date_cs line_index lines) (\<lambda>date.
        ebind (py_index lines (int line_index + 1)) (\<lambda>l1.
        ebind (line_at lines line_index (1 + (if str_contains okamzita l1 then 1 else 0))) (\<lambda>acc_to.
        ebind (amount_by_search lines line_index) (\<lambda>amt.
          Inr (Some ((new_tx OutgoingPayment sa)
            \<lparr>year := yr, account_from := acc_from, amount := amt,
              date_booked := Some date, account_to := Some acc_to\<rparr>))))))
      else if bnk = Some Csob then
        ebind (date_csob yr line_index lines) (\<lambda>date.
        ebind (account_and_amount lines line_index) (\<lambda>(acc_to, amt).
          Inr (Some ((new_tx OutgoingPayment sa)
            \<lparr>year := yr, account_from := acc_from, amount := amt,
              date_booked := Some date, account_to := Some acc_to\<rparr>))))
      else Inr None)"

text \<open>
  The CS rules for a standing order and for a direct debit look the account line up but
  never use its index: without an account line \<open>account_to\<close> is \<open>None\<close>.
\<close>

definition OutgoingPaymentPeriodic_create ::
  "bank option \<Rightarrow> pystr option \<Rightarrow> pystr option \<Rightarrow> pystr option \<Rightarrow> nat \<Rightarrow> pystr list
     \<Rightarrow> error + transaction option" where
  "OutgoingPaymentPeriodic_create bnk yr sa acc_from line_index lines =
     (if bnk = Some Cs then
        ebind (date_cs line_index lines) (\<lambda>date.
        ebind (amount_by_search lines line_index) (\<lambda>amt.
          Inr (Some ((new_tx OutgoingPaymentPeriodic sa)
            \<lparr>year := yr, account_from := acc_from, amount := amt, date_booked := Some date,
              account_to := map_option fst (get_account_nr_line lines line_index)\<rparr>))))
      else if bnk = Some Csob then
        ebind (date_csob yr line_index lines) (\<lambda>date.
        ebind (account_and_amount lines line_index) (\<lambda>(acc_to, amt).
          Inr (Some ((new_tx OutgoingPaymentPeriodic sa)
            \<lparr>year := yr, account_from := acc_from, amount := amt,
              date_booked := Some date, account_to := Some acc_to\<rparr>))))
      else Inr None)"

definition CardPaymentDebit_create ::
  "bank option \<Rightarrow> pystr option \<Rightarrow> pystr option \<Rightarrow> pystr option \<Rightarrow> nat \<Rightarrow> pystr list
     \<Rightarrow> error + transaction option" where
  "CardPaymentDebit_create bnk yr sa acc_from line_index lines =
     (if bnk = Some Cs then
        ebind (date_cs line_index lines) (\<lambda>date.
        ebind (int_at lines line_index 1) (\<lambda>vs.
        ebind (amount_by_search lines line_index) (\<lambda>amt.
        ebind (int_at lines line_index 3) (\<lambda>ks.
        ebind (int_at lines line_index 4) (\<lambda>ss.
        ebind (line_at lines line_index 5) (\<lambda>l5.
        ebind (line_at lines line_index 6) (\<lambda>vendor.
          Inr (Some ((new_tx CardPaymentDebit sa)
            \<lparr>year := yr, account_from := acc_from, amount := amt, date_booked := Some date,
              variable_symbol := Some vs, constant_symbol := Some ks, specific_symbol := Some ss,
              payment_date := Some (date_of_line l5), card_identifier := Some (card_of_line l5),
              vendor_text := Some vendor\<rparr>)))))))))
      else if bnk = Some Csob then
        ebind (date_csob yr line_index lines) (\<lambda>date.
        ebind (amount_by_search lines line_index) (\<lambda>amt.
        ebind (int_at lines line_index 4) (\<lambda>vs.
        ebind (int_at lines line_index 5) (\<lambda>ks.
        ebind (int_at lines line_index 6) (\<lambda>ss.
        ebind (line_at lines line_index 6) (\<lambda>l6.
        ebind (line_at lines line_index 8) (\<lambda>l8.
        ebind (line_at lines line_index 7) (\<lambda>l7.
        ebind (line_at lines line_index 9) (\<lambda>l9.
          Inr (Some ((new_tx CardPaymentDebit sa)
            \<lparr>year := yr, account_from := acc_from, amount := amt, date_booked := Some date,
              variable_symbol := Some vs, constant_symbol := Some ks, specific_symbol := Some ss,
              payment_date := Some (last (str_split 32 l8)), card_identifier := Some (last4 l6),
              vendor_text := Some (l7 @ l9)\<rparr>)))))))))))
      else Inr None)"

text \<open>
  \<open>CardPaymentIncoming.create\<close>: the CS branch calls the constructor of
  \<open>CardPaymentDebit\<close> and passes no account; the CSOB branch reads the amount two lines
  below the marker.
\<close>

definition CardPaymentIncoming_create ::
  "bank option \<Rightarrow> pystr option \<Rightarrow> pystr option \<Rightarrow> pystr option \<Rightarrow> nat \<Rightarrow> pystr list
     \<Rightarrow> error + transaction option" where
  "CardPaymentIncoming_create bnk yr sa acc_to line_index lines =
     (if bnk = Some Cs then
        ebind (date_cs line_index lines) (\<lambda>date.
        ebind (int_at lines line_index 1) (\<lambda>vs.
        ebind (amount_by_search lines line_index) (\<lambda>amt.
        ebind (int_at lines line_index 4) (\<lambda>ks.
        ebind (int_at lines line_index 5) (\<lambda>ss.
        ebind (line_at lines line_index 6) (\<lambda>l6.
        ebind (line_at lines line_index 7) (\<lambda>vendor.
          Inr (Some ((new_tx CardPaymentDebit sa)
            \<lparr>year := yr, amount := amt, date_booked := Some date,
              variable_symbol := Some vs, constant_symbol := Some ks, specific_symbol := Some ss,
              payment_date := Some (date_of_line l6), card_identifier := Some (card_of_line l6),
              vendor_text := Some vendor\<rparr>)))))))))
      else if bnk = Some Csob then
        ebind (date_csob yr line_index lines) (\<lambda>date.
        ebind (amount_at lines (int line_index + 2)) (\<lambda>amt.
        ebind (int_at lines line_index 4) (\<lambda>vs.
        ebind (int_at lines line_index 5) (\<lambda>ks.
        ebind (int_at lines line_index 6) (\<lambda>ss.
        ebind (line_at lines line_index 6) (\<lambda>l6.
        ebind (line_at lines line_index 8) (\<lambda>l8.
        ebind (line_at lines line_index 7) (\<lambda>l7.
        ebind (line_at lines line_index 9) (\<lambda>l9.
          Inr (Some ((new_tx CardPaymentIncoming sa)
            \<lparr>year := yr, amount := amt, date_booked := Some date, account_to := acc_to,
              variable_symbol := Some vs, constant_symbol := Some ks, specific_symbol := Some ss,
              payment_date := Some (last (str_split 32 l8)), card_identifier := Some (last4 l6),
              vendor_text := Some (l7 @ l9)\<rparr>)))))))))))
      else Inr None)"

text \<open>
  \<open>CardAtmCashOut.create\<close> has a CS branch only. A withdrawal at another bank's machine
  has one more line after the marker, which shifts every offset by one.
\<close>

definition CardAtmCashOut_create ::
  "bank option \<Rightarrow> pystr option \<Rightarrow> pystr option \<Rightarrow> pystr option \<Rightarrow> nat \<Rightarrow> pystr list
     \<Rightarrow> error + transaction option" where
  "CardAtmCashOut_create bnk yr sa acc_from line_index lines =
     (if bnk = Some Cs then
        ebind (date_cs line_index lines) (\<lambda>date.
        ebind (py_index lines (int line_index + 1)) (\<lambda>l1.
          let own_bank_atm = \<not> str_contains jine_banky l1;
              offset = (if \<not> own_bank_atm then 1 else 0)
          in
        ebind (int_at lines line_index (1 + offset)) (\<lambda>vs.
        ebind (amount_by_search lines line_index) (\<lambda>amt.
        ebind (int_at lines line_index (3 + offset)) (\<lambda>ks.
        ebind (int_at lines line_index (4 + offset)) (\<lambda>ss.
        ebind (line_at lines line_index (5 + offset)) (\<lambda>l5.
        ebind (line_at lines line_index (6 + offset)) (\<lambda>vendor.
          Inr (Some ((new_tx CardAtmCashOut sa)
            \<lparr>year := yr, account_from := acc_from, amount := amt, date_booked := Some date,
              variable_symbol := Some vs, constant_symbol := Some ks, specific_symbol := Some ss,
              card_identifier := Some (card_of_line l5), vendor_text := Some vendor,
              our_bank_atm := own_bank_atm, cash_out_date := date_of_line l5\<rparr>))))))))))
      else Inr None)"

definition CardAtmDeposit_create ::
  "bank option \<Rightarrow> pystr option \<Rightarrow> pystr option \<Rightarrow> pystr option \<Rightarrow> nat \<Rightarrow> pystr list
     \<Rightarrow> error + transaction option" where
  "CardAtmDeposit_create bnk yr sa acc_from line_index lines =
     (if bnk = Some Cs then
        ebind (date_cs line_index lines) (\<lambda>date.
        ebind (int_at lines line_index 1) (\<lambda>vs.
        ebind (amount_by_search lines line_index) (\<lambda>amt.
        ebind (int_at lines line_index 3) (\<lambda>ks.
          Inr (Some ((new_tx CardAtmDeposit sa)
            \<lparr>year := yr, account_from := acc_from, amount := amt, date_booked := Some date,
              account_to := sa, variable_symbol := Some vs, constant_symbol := Some ks,
              deposit_date := date\<rparr>))))))
      else Inr None)"

text \<open>
  \<open>BankPayedService\<close>: the kind of service is looked up in the line after the marker (CS)
  or in the marker line (CSOB). The inner loop appends the first subtype found in the
  line it looks at and stops.
\<close>

fun add_subtype :: "pystr list \<Rightarrow> pystr \<Rightarrow> pystr \<Rightarrow> pystr" where
  "add_subtype [] line service = service"
| "add_subtype (subtype # rest) line service =
     (if str_contains subtype line then service @ ascii '' - '' @ subtype
      else add_subtype rest line service)"

definition platebni_karta :: pystr where
  "platebni_karta = ascii ''platebn'' @ [237] @ ascii '' karta''"

definition cs_service_types :: "(pystr \<times> pystr list) list" where
  "cs_service_types =
     [(ascii ''Cena za v'' @ [253] @ ascii ''b'' @ [283] @ ascii ''r hotovosti z bankomatu'',
       [jine_banky]),
      (ascii ''Cena za veden'' @ [237] @ ascii '' '' @ [250, 269] @ ascii ''tu'', []),
      (ascii ''Poplatek'', [platebni_karta])]"

fun cs_service_loop :: "(pystr \<times> pystr list) list \<Rightarrow> nat \<Rightarrow> pystr list \<Rightarrow> error + pystr" where
  "cs_service_loop [] line_index lines = Inr []"
| "cs_service_loop ((key, subtypes) # rest) line_index lines =
     ebind (py_index lines (int line_index + 1))
       (\<lambda>l1. if str_contains key l1
             then (if subtypes = [] then Inr key
                   else ebind (py_index lines (int line_index + 2))
                          (\<lambda>l2. Inr (add_subtype subtypes l2 key)))
             else cs_service_loop rest line_index lines)"

definition get_cs_bank_service_type :: "nat \<Rightarrow> pystr list \<Rightarrow> error + pystr" where
  "get_cs_bank_service_type line_index lines = cs_service_loop cs_service_types line_index lines"

definition get_csob_bank_service_type :: "nat \<Rightarrow> pystr list \<Rightarrow> error + pystr" where
  "get_csob_bank_service_type line_index lines =
     ebind (py_index lines (int line_index))
       (\<lambda>l. if str_contains (ascii ''Poplatek'') l
            then Inr (add_subtype [platebni_karta] l ([10] @ ascii ''Poplatek'') @ [10])
            else Inr [10])"

definition BankPayedService_create ::
  "bank option \<Rightarrow> pystr option \<Rightarrow> pystr option \<Rightarrow> pystr option \<Rightarrow> nat \<Rightarrow> pystr list
     \<Rightarrow> error + transaction option" where
  "BankPayedService_create bnk yr sa acc_from line_index lines =
     (if bnk = Some Cs then
        ebind (date_cs line_index lines) (\<lambda>date.
        ebind (amount_by_search lines line_index) (\<lambda>amt.
        ebind (get_cs_bank_service_type line_index lines) (\<lambda>service.
          Inr (Some ((new_tx BankPayedService sa)
            \<lparr>year := yr, account_from := acc_from, amount := amt, date_booked := Some date,
              service_type := Some service\<rparr>)))))
      else if bnk = Some Csob then
        ebind (date_csob yr line_index lines) (\<lambda>date.
        ebind (amount_by_search lines line_index) (\<lambda>amt.
        ebind (get_csob_bank_service_type line_index lines) (\<lambda>service.
          Inr (Some ((new_tx BankPayedService sa)
            \<lparr>year := yr, account_from := acc_from, amount := amt, date_booked := Some date,
              service_type := Some service\<rparr>)))))
      else Inr None)"

definition InterestPositive_create ::
  "bank option \<Rightarrow> pystr option \<Rightarrow> pystr option \<Rightarrow> pystr option \<Rightarrow> nat \<Rightarrow> pystr list
     \<Rightarrow> error + transaction option" where
  "InterestPositive_create bnk yr sa acc_from line_index lines =
     (if bnk = Some Cs then
        ebind (date_cs line_index lines) (\<lambda>date.
        ebind (amount_by_search lines line_index) (\<lambda>amt.
          Inr (Some ((new_tx InterestPositive sa)
            \<lparr>year := yr, account_from := acc_from, amount := amt, date_booked := Some date,
              account_to := acc_from\<rparr>))))
      else if bnk = Some Csob then
        ebind (date_csob yr line_index lines) (\<lambda>date.
        ebind (amount_at lines (int line_index + 2)) (\<lambda>amt.
          Inr (Some ((new_tx InterestPositive sa)
            \<lparr>year := yr, account_from := acc_from, amount := amt, date_booked := Some date,
              account_to := acc_from\<rparr>))))
      else Inr None)"

definition TaxInterest_create ::
  "bank option \<Rightarrow> pystr option \<Rightarrow> pystr option \<Rightarrow> pystr option \<Rightarrow> nat \<Rightarrow> pystr list
     \<Rightarrow> error + transaction option" where
  "TaxInterest_create bnk yr sa acc_from line_index lines =
     (if bnk = Some Cs then
        ebind (date_cs line_index lines) (\<lambda>date.
        ebind (amount_by_search lines line_index) (\<lambda>amt.
          Inr (Some ((new_tx TaxInterest sa)
            \<lparr>year := yr, account_from := acc_from, amount := amt, date_booked := Some date\<rparr>))))
      else Inr None)"

text \<open>
  \<open>ElectronicBankingTransfer.create\<close> takes no account argument; the sign of the amount
  decides which side the account of the statement is on. The CS branch is \<open>pass\<close>.
\<close>

definition ElectronicBankingTransfer_create ::
  "bank option \<Rightarrow> pystr option \<Rightarrow> pystr option \<Rightarrow> nat \<Rightarrow> pystr list
     \<Rightarrow> error + transaction option" where
  "ElectronicBankingTransfer_create bnk yr sa line_index lines =
     (if bnk = Some Cs then Inr None
      else if bnk = Some Csob then
        ebind (date_csob yr line_index lines) (\<lambda>date.
        ebind (account_and_amount lines line_index) (\<lambda>(counter_party_account, amt).
          Inr (Some ((new_tx ElectronicBankingTransfer sa)
            \<lparr>year := yr,
              account_from := (if flt amt (Finite 0) then sa else Some counter_party_account),
              amount := amt, date_booked := Some date,
              account_to := (if flt amt (Finite 0) then Some counter_party_account else sa)\<rparr>))))
      else Inr None)"

definition DirectDebit_create ::
  "bank option \<Rightarrow> pystr option \<Rightarrow> pystr option \<Rightarrow> pystr option \<Rightarrow> nat \<Rightarrow> pystr list
     \<Rightarrow> error + transaction option" where
  "DirectDebit_create bnk yr sa acc_from line_index lines =
     (if bnk = Some Cs then
        ebind (date_cs line_index lines) (\<lambda>date.
        ebind (amount_by_search lines line_index) (\<lambda>amt.
          Inr (Some ((new_tx DirectDebit sa)
            \<lparr>year := yr, account_from := acc_from, amount := amt, date_booked := Some date,
              account_to := map_option fst (get_account_nr_line lines line_index)\<rparr>))))
      else if bnk = Some Csob then
        ebind (date_csob yr line_index lines) (\<lambda>date.
        ebind (account_and_amount lines line_index) (\<lambda>(acc_to, amt).
          Inr (Some ((new_tx DirectDebit sa)
            \<lparr>year := yr, account_from := acc_from, amount := amt, date_booked := Some date,
              account_to := Some acc_to\<rparr>))))
      else Inr None)"

text \<open>
  \<open>create k\<close> is the \<open>create\<close> of class \<open>k\<close>, with the account of the statement as the
  account argument (\<open>account_to\<close> or \<open>account_from\<close>, as the class names it).
\<close>

fun create ::
  "kind \<Rightarrow> bank option \<Rightarrow> pystr option \<Rightarrow> pystr option \<Rightarrow> pystr option \<Rightarrow> nat \<Rightarrow> pystr list
     \<Rightarrow> error + transaction option" where
  "create IncomingPayment b yr sa acc i lines = IncomingPayment_create b yr sa acc i lines"
| "create OutgoingPayment b yr sa acc i lines = OutgoingPayment_create b yr sa acc i lines"
| "create OutgoingPaymentPeriodic b yr sa acc i lines =
     OutgoingPaymentPeriodic_create b yr sa acc i lines"
| "create CardPaymentDebit b yr sa acc i lines = CardPaymentDebit_create b yr sa acc i lines"
| "create CardPaymentIncoming b yr sa acc i lines = CardPaymentIncoming_create b yr sa acc i lines"
| "create CardAtmCashOut b yr sa acc i lines = CardAtmCashOut_create b yr sa acc i lines"
| "create CardAtmDeposit b yr sa acc i lines = CardAtmDeposit_create b yr sa acc i lines"
| "create BankPayedService b yr sa acc i lines = BankPayedService_create b yr sa acc i lines"
| "create InterestPositive b yr sa acc i lines = InterestPositive_create b yr sa acc i lines"
| "create TaxInterest b yr sa acc i lines = TaxInterest_create b yr sa acc i lines"
| "create ElectronicBankingTransfer b yr sa acc i lines =
     ElectronicBankingTransfer_create b yr sa i lines"
| "create DirectDebit b yr sa acc i lines = DirectDebit_create b yr sa acc i lines"

section \<open>account_statement.py\<close>

text \<open>
  A \<open>StatementAccount\<close>. The pages of a PDF are lists of lines; a row of a CSV file is the
  dictionary \<open>csv.DictReader\<close> yields, a partial map from column names to texts.
  \<open>all_transactions\<close> holds the addresses of the transactions of the statement.
\<close>

type_synonym row = "pystr \<rightharpoonup> pystr"

record statement =
  file_path :: pystr
  bank_name :: "bank option"
  account_number :: "pystr option"
  stmt_year :: "pystr option"
  start_balance :: "pyfloat option"
  end_balance :: "pyfloat option"
  pages_content_pdf :: "pystr list list"
  csv_content :: "row list"
  all_transactions :: "ref list"

subsection \<open>The PDF engine: \<open>get_transactions_pdf\<close>\<close>

text \<open>
  \<open>any(identifier in line for identifier in K.text_identifiers.get(self.bank_name))\<close>: for a
  bank without an entry \<open>get\<close> gives \<open>None\<close>, and iterating over it raises \<open>TypeError\<close>.
\<close>

definition has_marker :: "kind \<Rightarrow> bank option \<Rightarrow> pystr \<Rightarrow> error + bool" where
  "has_marker k b line =
     (case text_identifiers k b of
        None \<Rightarrow> Inl TypeError
      | Some identifiers \<Rightarrow> Inr (list_ex (\<lambda>identifier. str_contains identifier line) identifiers))"

text \<open>
  The conditions of the \<open>if\<close>/\<open>elif\<close> chain of the loop body, in the order of the source:
  the class of the first branch whose condition holds, \<open>None\<close> when none of the twelve
  does.
\<close>

definition first_marker :: "bank option \<Rightarrow> pystr \<Rightarrow> error + kind option" where
  "first_marker b line =
     ebind (has_marker CardPaymentIncoming b line) (\<lambda>m. if m then Inr (Some CardPaymentIncoming) else
     ebind (has_marker IncomingPayment b line) (\<lambda>m. if m then Inr (Some IncomingPayment) else
     ebind (has_marker OutgoingPayment b line) (\<lambda>m. if m then Inr (Some OutgoingPayment) else
     ebind (has_marker CardPaymentDebit b line) (\<lambda>m. if m then Inr (Some CardPaymentDebit) else
     ebind (has_marker CardAtmCashOut b line) (\<lambda>m. if m then Inr (Some CardAtmCashOut) else
     ebind (has_marker BankPayedService b line) (\<lambda>m. if m then Inr (Some BankPayedService) else
     ebind (has_marker OutgoingPaymentPeriodic b line) (\<lambda>m.
       if m then Inr (Some OutgoingPaymentPeriodic) else
     ebind (has_marker InterestPositive b line) (\<lambda>m. if m then Inr (Some InterestPositive) else
     ebind (has_marker TaxInterest b line) (\<lambda>m. if m then Inr (Some TaxInterest) else
     ebind (has_marker ElectronicBankingTransfer b line) (\<lambda>m.
       if m then Inr (Some ElectronicBankingTransfer) else
     ebind (has_marker DirectDebit b line) (\<lambda>m. if m then Inr (Some DirectDebit) else
     ebind (has_marker CardAtmDeposit b line) (\<lambda>m. if m then Inr (Some CardAtmDeposit) else
       Inr None))))))))))))"

text \<open>
  The state of the loop: the statement, the registry and the flag
  \<open>is_transaction_lines_active\<close>.

  The body of a marker branch is the same for every class: the flag is set, the rule of
  the class is called with the index of the line and the lines of the page, the
  transaction is appended to \<open>self.all_transactions\<close> and \<open>tx.parent_statement\<close> is set.
  When the rule returned \<open>None\<close> that assignment raises \<open>AttributeError\<close>.
\<close>

definition set_parent :: "ref \<Rightarrow> pystr \<Rightarrow> world \<Rightarrow> world" where
  "set_parent a path w = w\<lparr>heap := (heap w)[a := (heap w ! a)\<lparr>parent_statement := Some path\<rparr>]\<rparr>"

definition open_transaction ::
  "kind \<Rightarrow> statement \<Rightarrow> world \<Rightarrow> nat \<Rightarrow> pystr list \<Rightarrow> error + (statement \<times> world \<times> bool)" where
  "open_transaction k s w i page =
     ebind (create k (bank_name s) (stmt_year s) (account_number s) (account_number s) i page)
       (\<lambda>r. case r of
               None \<Rightarrow> Inl AttributeError
             | Some t \<Rightarrow>
                 (let (a, w1) = construct t w
                  in Inr (s\<lparr>all_transactions := all_transactions s @ [a]\<rparr>,
                          set_parent a (file_path s) w1, True)))"

text \<open>
  A line of the body of the open transaction:
  \<open>self.all_transactions[-1].all_transaction_lines_text += f"{line.strip()}\n"\<close>.
\<close>

definition append_line :: "statement \<Rightarrow> world \<Rightarrow> pystr \<Rightarrow> error + world" where
  "append_line s w line =
     ebind (py_index (all_transactions s) (- 1))
       (\<lambda>a. case all_transaction_lines_text (heap w ! a) of
               None \<Rightarrow> Inl TypeError
             | Some text \<Rightarrow>
                 Inr (w\<lparr>heap := (heap w)[a := (heap w ! a)
                        \<lparr>all_transaction_lines_text := Some (text @ str_strip line @ [10])\<rparr>]\<rparr>))"

definition process_line ::
  "statement \<times> world \<times> bool \<Rightarrow> nat \<Rightarrow> pystr list \<Rightarrow> error + (statement \<times> world \<times> bool)" where
  "process_line st i page =
     (case st of (s, w, active) \<Rightarrow>
        ebind (first_marker (bank_name s) (page ! i))
          (\<lambda>m. case m of
                  Some k \<Rightarrow> open_transaction k s w i page
                | None \<Rightarrow>
                    if page ! i \<in> set TRANSACTION_END_SECTION then Inr (s, w, False)
                    else if active \<and> page ! i \<noteq> []
                    then ebind (append_line s w (page ! i)) (\<lambda>w1. Inr (s, w1, active))
                    else Inr (s, w, active)))"

text \<open>A loop that an exception leaves: the first error ends it.\<close>

fun efold :: "('s \<Rightarrow> 'a \<Rightarrow> error + 's) \<Rightarrow> 'a list \<Rightarrow> 's \<Rightarrow> error + 's" where
  "efold f [] s = Inr s"
| "efold f (x # xs) s = ebind (f s x) (efold f xs)"

definition process_page ::
  "statement \<times> world \<times> bool \<Rightarrow> pystr list \<Rightarrow> error + (statement \<times> world \<times> bool)" where
  "process_page st page = efold (\<lambda>st i. process_line st i page) [0..<length page] st"

definition get_transactions_pdf :: "statement \<Rightarrow> world \<Rightarrow> error + (statement \<times> world)" where
  "get_transactions_pdf s w =
     ebind (efold process_page (pages_content_pdf s) (s, w, False))
       (\<lambda>(s1, w1, active). Inr (s1, w1))"

subsection \<open>The CSV path: \<open>get_transactions_csv\<close>\<close>

definition is_transaction_valid :: "pystr \<Rightarrow> bool" where
  "is_transaction_valid state \<longleftrightarrow> str_lower state = ascii ''completed''"

text \<open>\<open>revolut_rules\<close>: class, the texts of the column \<open>Type\<close>, and the flag \<open>negative\<close>.\<close>

definition revolut_rules :: "(kind \<times> pystr list \<times> bool) list" where
  "revolut_rules =
     [(OutgoingPayment, [ascii ''transfer'', ascii ''exchange''], True),
      (IncomingPayment, [ascii ''transfer'', ascii ''exchange'', ascii ''topup''], False),
      (CardPaymentDebit, [ascii ''card_payment''], True),
      (CardPaymentIncoming, [ascii ''card_payment''], False),
      (BankPayedService, [ascii ''fee''], True),
      (CardAtmCashOut, [ascii ''atm''], True)]"

text \<open>
  The values read from a row before the loop over the rules. A missing date becomes the
  text \<open>ERROR - MISSING DATE\<close>; \<open>float(None)\<close> raises \<open>TypeError\<close>.
\<close>

definition row_date :: "pystr option \<Rightarrow> error + pystr" where
  "row_date v =
     (case v of
        None \<Rightarrow> Inr (ascii ''ERROR - MISSING DATE'')
      | Some d \<Rightarrow> if d = [] then Inr (ascii ''ERROR - MISSING DATE'') else get_date_from_string d)"

definition row_float :: "pystr option \<Rightarrow> error + pyfloat" where
  "row_float v = (case v of None \<Rightarrow> Inl TypeError | Some x \<Rightarrow> py_float x)"

text \<open>The constructor call of the branch for class \<open>key\<close>.\<close>

definition csv_transaction ::
  "kind \<Rightarrow> statement \<Rightarrow> pyfloat \<Rightarrow> pystr \<Rightarrow> pystr \<Rightarrow> pystr option \<Rightarrow> pystr option
     \<Rightarrow> transaction" where
  "csv_transaction key s amt date_started date_completed cur description =
     (let base = (new_tx key (account_number s))
            \<lparr>parent_statement := Some (file_path s), year := stmt_year s, amount := amt,
              date_booked := Some date_completed, currency := cur,
              all_transaction_lines_text := description\<rparr>
      in if key = OutgoingPayment then base\<lparr>account_from := account_number s\<rparr>
         else if key = IncomingPayment then base\<lparr>account_to := account_number s\<rparr>
         else if key = CardPaymentDebit
         then base\<lparr>account_from := account_number s, card_identifier := Some (ascii ''9448''),
                   payment_date := Some date_started\<rparr>
         else if key = CardPaymentIncoming then base\<lparr>account_to := account_number s\<rparr>
         else if key = BankPayedService
         then base\<lparr>account_from := account_number s, service_type := Some []\<rparr>
         else base\<lparr>account_from := account_number s\<rparr>)"

definition fee_transaction ::
  "statement \<Rightarrow> pyfloat \<Rightarrow> pystr \<Rightarrow> pystr option \<Rightarrow> pystr option \<Rightarrow> transaction" where
  "fee_transaction s fee date_completed cur description =
     (new_tx BankPayedService (account_number s))
       \<lparr>parent_statement := Some (file_path s), account_from := account_number s,
         year := stmt_year s, amount := fneg fee, date_booked := Some date_completed,
         currency := cur, all_transaction_lines_text := description,
         service_type := Some (ascii ''transaction fee'')\<rparr>"

text \<open>
  One pass of the loop over \<open>revolut_rules\<close> for a row: when the type and the sign fit the
  rule, the transaction is constructed and appended, and after it the transaction of the
  fee when \<open>fee > 0\<close>. \<open>tx_type.lower()\<close> raises \<open>AttributeError\<close> when the row has no type.
\<close>

definition apply_rule ::
  "pystr option \<Rightarrow> pyfloat \<Rightarrow> pyfloat \<Rightarrow> pystr \<Rightarrow> pystr \<Rightarrow> pystr option \<Rightarrow> pystr option
     \<Rightarrow> statement \<times> world \<Rightarrow> kind \<times> pystr list \<times> bool \<Rightarrow> error + (statement \<times> world)" where
  "apply_rule tx_type amt fee date_started date_completed cur description st rule =
     (case st of (s, w) \<Rightarrow>
      case rule of (key, types, negative) \<Rightarrow>
      case tx_type of
        None \<Rightarrow> Inl AttributeError
      | Some ty \<Rightarrow>
          if str_lower ty \<in> set types \<and> negative = flt amt (Finite 0)
          then
            (let (a, w1) = construct (csv_transaction key s amt date_started date_completed
                                        cur description) w;
                 s1 = s\<lparr>all_transactions := all_transactions s @ [a]\<rparr>
             in if flt (Finite 0) fee
                then (let (b, w2) = construct (fee_transaction s fee date_completed cur
                                                 description) w1
                      in Inr (s1\<lparr>all_transactions := all_transactions s1 @ [b]\<rparr>, w2))
                else Inr (s1, w1))
          else Inr (s, w))"

definition process_row :: "statement \<times> world \<Rightarrow> row \<Rightarrow> error + (statement \<times> world)" where
  "process_row st r =
     ebind (row_date (r (ascii ''Started Date''))) (\<lambda>date_started.
     ebind (row_date (r (ascii ''Completed Date''))) (\<lambda>date_completed.
     ebind (row_float (r (ascii ''Amount''))) (\<lambda>amt.
     ebind (row_float (r (ascii ''Fee''))) (\<lambda>fee.
       case r (ascii ''State'') of
         None \<Rightarrow> Inl AttributeError
       | Some state \<Rightarrow>
           if \<not> is_transaction_valid state then Inr st
           else efold (apply_rule (r (ascii ''Type'')) amt fee date_started date_completed
                         (r (ascii ''Currency'')) (r (ascii ''Description'')))
                  revolut_rules st))))"

definition get_transactions_csv :: "statement \<Rightarrow> world \<Rightarrow> error + (statement \<times> world)" where
  "get_transactions_csv s w = efold process_row (csv_content s) (s, w)"

text \<open>
  The balances of a CSV statement: taken from the first and the last row when there is
  one, and left at \<open>None\<close> for a file without rows.
\<close>

definition get_account_start_balance_csv :: "statement \<Rightarrow> error + statement" where
  "get_account_start_balance_csv s =
     (case csv_content s of
        [] \<Rightarrow> Inr s
      | first_line # rest \<Rightarrow>
          ebind (row_float (first_line (ascii ''Balance''))) (\<lambda>balance_after_1st_line.
          ebind (row_float (first_line (ascii ''Amount''))) (\<lambda>amount_1st_line.
            Inr (s\<lparr>start_balance := Some (fsub balance_after_1st_line amount_1st_line)\<rparr>))))"

definition get_account_end_balance_csv :: "statement \<Rightarrow> error + statement" where
  "get_account_end_balance_csv s =
     (if csv_content s = [] then Inr s
      else ebind (row_float (last (csv_content s) (ascii ''Balance'')))
             (\<lambda>b. Inr (s\<lparr>end_balance := Some b\<rparr>)))"

section \<open>main.py: \<open>validate_all_transactions_extracted\<close>\<close>

text \<open>
  What the function prints for a statement: the path, and the warning with the missing
  amount when the rounded difference of the balances is not the rounded sum of the
  amounts. A balance that is \<open>None\<close> makes the subtraction raise \<open>TypeError\<close>. The function
  reads the registry and writes nothing to it.
\<close>

datatype event = Path pystr | Warning pyfloat

definition balance_delta :: "statement \<Rightarrow> error + pyfloat" where
  "balance_delta s =
     (case end_balance s of
        None \<Rightarrow> Inl TypeError
      | Some e \<Rightarrow> (case start_balance s of None \<Rightarrow> Inl TypeError | Some b \<Rightarrow> Inr (fsub e b)))"

definition amounts_sum :: "world \<Rightarrow> statement \<Rightarrow> pyfloat" where
  "amounts_sum w s = py_sum (map (\<lambda>a. amount (heap w ! a)) (all_transactions s))"

definition validate_statement :: "world \<Rightarrow> statement \<Rightarrow> error + event list" where
  "validate_statement w s =
     ebind (balance_delta s)
       (\<lambda>delta. if fne (py_round2 delta) (py_round2 (amounts_sum w s))
                then Inr [Path (file_path s), Warning (py_round2 (fsub delta (amounts_sum w s)))]
                else Inr [Path (file_path s)])"

definition validate_all_transactions_extracted ::
  "statement list \<Rightarrow> world \<Rightarrow> error + event list" where
  "validate_all_transactions_extracted StatementAccount_all w =
     efold (\<lambda>out s. ebind (validate_statement w s) (\<lambda>evs. Inr (out @ evs))) StatementAccount_all []"

section \<open>transactions.py: sorting, saving and loading the registry\<close>

text \<open>
  \<open>sort_transactions\<close>: \<open>cls.all.sort(key=get_sort_key)\<close>. The key of every transaction is
  computed first (an unreadable date raises, \<open>None\<close> as a date raises \<open>TypeError\<close>), then the
  list is sorted by the keys with a stable sort. A key is the pair of the date and the id.
\<close>

definition get_sort_key :: "transaction \<Rightarrow> error + (pydate \<times> int)" where
  "get_sort_key tx =
     (case date_booked tx of
        None \<Rightarrow> Inl TypeError
      | Some d \<Rightarrow> ebind (strptime_dmY d) (\<lambda>dt. Inr (dt, transaction_id tx)))"

fun emap :: "('a \<Rightarrow> error + 'b) \<Rightarrow> 'a list \<Rightarrow> error + 'b list" where
  "emap f [] = Inr []"
| "emap f (x # xs) = ebind (f x) (\<lambda>y. ebind (emap f xs) (\<lambda>ys. Inr (y # ys)))"

definition sort_transactions :: "world \<Rightarrow> error + world" where
  "sort_transactions w =
     ebind (emap (\<lambda>a. get_sort_key (heap w ! a)) (Transaction_all w))
       (\<lambda>keys. Inr (w\<lparr>Transaction_all := map snd (sort_key fst (zip keys (Transaction_all w)))\<rparr>))"

text \<open>The loop of \<open>save_transactions_json\<close> that gives the ids 1, 2, ... in list order.\<close>

fun renumber :: "nat \<Rightarrow> ref list \<Rightarrow> transaction list \<Rightarrow> transaction list" where
  "renumber i [] h = h"
| "renumber i (a # rest) h = renumber (Suc i) rest (h[a := (h ! a)\<lparr>transaction_id := int i + 1\<rparr>])"

text \<open>
  An object of the JSON file: the entry \<open>type\<close> and the entries of \<open>asdict(t)\<close>, one for
  each dataclass field of the class of \<open>t\<close>, \<open>transaction_id\<close> among them. \<open>js_keys\<close> are the
  keys besides \<open>type\<close>, and the value of a key is the field of that name of \<open>js_values\<close>.
\<close>

record json_obj =
  js_type :: pystr
  js_keys :: "pystr list"
  js_values :: transaction

definition base_fields :: "pystr list" where
  "base_fields =
     [ascii ''statement_account'', ascii ''parent_statement'', ascii ''transaction_id'',
      ascii ''year'', ascii ''account_from'', ascii ''amount'', ascii ''date_booked'',
      ascii ''account_to'', ascii ''currency'', ascii ''account_from_name'', ascii ''sender_note'',
      ascii ''variable_symbol'', ascii ''constant_symbol'', ascii ''specific_symbol'',
      ascii ''all_transaction_lines_text'', ascii ''user_description'', ascii ''user_category'']"

definition card_fields :: "pystr list" where
  "card_fields =
     [ascii ''payment_date'', ascii ''card_identifier'', ascii ''vendor_text'', ascii ''card_owner'']"

fun field_names :: "kind \<Rightarrow> pystr list" where
  "field_names CardPaymentDebit = base_fields @ card_fields"
| "field_names CardPaymentIncoming = base_fields @ card_fields"
| "field_names CardAtmCashOut =
     base_fields @ card_fields @ [ascii ''our_bank_atm'', ascii ''cash_out_date'']"
| "field_names CardAtmDeposit = base_fields @ [ascii ''deposit_date'']"
| "field_names BankPayedService = base_fields @ [ascii ''service_type'']"
| "field_names k = base_fields"

definition to_json :: "transaction \<Rightarrow> json_obj" where
  "to_json t = \<lparr> js_type = class_name (cls t), js_keys = field_names (cls t), js_values = t \<rparr>"

text \<open>
  \<open>save_transactions_json\<close>: sort, renumber, and write one object for each transaction of
  the registry. The result is the registry and the content of the file.
\<close>

definition save_transactions_json :: "world \<Rightarrow> error + (world \<times> json_obj list)" where
  "save_transactions_json w =
     ebind (sort_transactions w)
       (\<lambda>w1. let w2 = w1\<lparr>heap := renumber 0 (Transaction_all w1) (heap w1)\<rparr>
             in Inr (w2, map (\<lambda>a. to_json (heap w2 ! a)) (Transaction_all w2)))"







section \<open>The claims about the PDF engine in the words of the specification\<close>



text \<open>
  The fixed offsets from the marker line at which a rule indexes the page, read off the
  source of each \<open>create\<close>. Some rules read one line more when the line after the marker
  says so: an instant payment, a withdrawal at another bank's machine, a service with a
  subtype. The rules that find the amount through the account line of the other party
  have no fixed offset.
\<close>

definition service_offsets :: "nat \<Rightarrow> pystr list \<Rightarrow> nat list" where
  "service_offsets i lines =
     (if Suc i < length lines
      then (case find (\<lambda>(key, subtypes). str_contains key (lines ! Suc i)) cs_service_types of
              None \<Rightarrow> [1]
            | Some (key, subtypes) \<Rightarrow> if subtypes = [] then [1] else [1, 2])
      else [1])"

fun rule_offsets :: "kind \<Rightarrow> bank option \<Rightarrow> nat \<Rightarrow> pystr list \<Rightarrow> nat list" where
  "rule_offsets IncomingPayment (Some Cs) i lines = [1]"
| "rule_offsets OutgoingPayment (Some Cs) i lines =
     (if Suc i < length lines \<and> str_contains okamzita (lines ! Suc i) then [1, 2] else [1])"
| "rule_offsets CardPaymentDebit (Some Cs) i lines = [1, 3, 4, 5, 6]"
| "rule_offsets CardPaymentDebit (Some Csob) i lines = [4, 5, 6, 7, 8, 9]"
| "rule_offsets CardPaymentIncoming (Some Cs) i lines = [1, 4, 5, 6, 7]"
| "rule_offsets CardPaymentIncoming (Some Csob) i lines = [2, 4, 5, 6, 7, 8, 9]"
| "rule_offsets CardAtmCashOut (Some Cs) i lines =
     (if Suc i < length lines \<and> str_contains jine_banky (lines ! Suc i)
      then [1, 2, 4, 5, 6, 7] else [1, 3, 4, 5, 6])"
| "rule_offsets CardAtmDeposit (Some Cs) i lines = [1, 3]"
| "rule_offsets BankPayedService (Some Cs) i lines = service_offsets i lines"
| "rule_offsets InterestPositive (Some Csob) i lines = [2]"
| "rule_offsets k b i lines = []"

text \<open>
  The state in which \<open>get_transactions_pdf\<close> arrives at line \<open>i\<close> of page \<open>p\<close>: the pages
  before \<open>p\<close> and the lines before \<open>i\<close> have been processed.
\<close>

definition state_at ::
  "statement \<Rightarrow> world \<Rightarrow> nat \<Rightarrow> nat \<Rightarrow> error + (statement \<times> world \<times> bool)" where
  "state_at s w p i =
     ebind (efold process_page (take p (pages_content_pdf s)) (s, w, False))
       (\<lambda>st. efold (\<lambda>st j. process_line st j (pages_content_pdf s ! p)) [0..<i] st)"

section \<open>The amount formats of the specification\<close>





section \<open>Example inputs\<close>

text \<open>
  A row of a Revolut CSV export with the given type, amount, fee and state, and a
  statement read from a CSV file.
\<close>

definition row_of :: "(string \<times> string) list \<Rightarrow> row" where
  "row_of kvs = map_of (map (\<lambda>(k, v). (ascii k, ascii v)) kvs)"

definition revolut_row :: "string \<Rightarrow> string \<Rightarrow> string \<Rightarrow> string \<Rightarrow> row" where
  "revolut_row ty amt fee state =
     row_of [(''Type'', ty), (''Started Date'', ''2023-01-05 10:00:00''),
             (''Completed Date'', ''2023-01-06 11:30:00''), (''Description'', ''Shop''),
             (''Amount'', amt), (''Fee'', fee), (''Currency'', ''CZK''), (''State'', state),
             (''Balance'', ''880.00'')]"

definition csv_statement :: statement where
  "csv_statement =
     \<lparr> file_path = ascii ''czk23.csv'', bank_name = Some Revolut,
       account_number = Some (ascii ''LT443250037740989361CZK''),
       stmt_year = Some (ascii ''2023''), start_balance = None, end_balance = None,
       pages_content_pdf = [], csv_content = [], all_transactions = [] \<rparr>"


text \<open>
  A page of a CS statement with a card payment (the marker line and the six lines of the
  layout), the same page cut off after the constant symbol, a CS page with the refund of
  a card payment, and a CSOB page with a card payment.
\<close>

definition cs_card_page :: "pystr list" where
  "cs_card_page =
     [ascii ''Platba kartou 05.01.2023'', ascii ''1234567890'', ascii ''-250,00'', ascii ''1178'',
      ascii ''4400007148'', ascii ''XXXXXXXXXXXX7148 d.tran.04.01.2023'', ascii ''ALBERT PRAHA'']"


definition csob_card_page :: "pystr list" where
  "csob_card_page =
     [ascii ''05.01.'', ascii ''Transakce platebn'' @ [237] @ ascii '' kartou'', ascii ''x'',
      ascii ''-250,00'', ascii ''x'', ascii ''1234567890'', ascii ''1178'', ascii ''4400001563'',
      ascii ''Misto: ALBERT'', ascii ''Castka: 250 CZK 04.01.2023'', ascii ''PRAHA 4'']"

definition pdf_statement :: "bank \<Rightarrow> pystr list list \<Rightarrow> statement" where
  "pdf_statement b pages =
     \<lparr> file_path = ascii ''statement.pdf'', bank_name = Some b,
       account_number = Some (ascii ''1234567890/0800''), stmt_year = Some (ascii ''2023''),
       start_balance = Some (Finite 1000), end_balance = Some (Finite 750),
       pages_content_pdf = pages, csv_content = [], all_transactions = [] \<rparr>"

definition cs_card_page_cut :: "pystr list" where
  "cs_card_page_cut = take 4 cs_card_page"

text \<open>
  A statement with opening balance 1000 and closing balance 1500 that owns one transaction,
  and the registry holding that one transaction with a given amount.
\<close>

definition balanced_statement :: statement where
  "balanced_statement =
     (pdf_statement Cs [])\<lparr>start_balance := Some (Finite 1000), end_balance := Some (Finite 1500),
                            all_transactions := [0]\<rparr>"

definition one_amount :: "pyfloat \<Rightarrow> world" where
  "one_amount a =
     \<lparr> heap = [(new_tx IncomingPayment None)\<lparr>amount := a\<rparr>], Transaction_all = [0],
       generator_id = Some 2 \<rparr>"

text \<open>
  A registry of three incoming payments created in the order 6 January, 5 January, 5 January.
\<close>

definition dated :: "string \<Rightarrow> int \<Rightarrow> transaction" where
  "dated d n = (new_tx IncomingPayment None)\<lparr>date_booked := Some (ascii d), transaction_id := n\<rparr>"

definition three_world :: world where
  "three_world =
     \<lparr> heap = [dated ''06.01.2023'' 1, dated ''05.01.2023'' 2, dated ''05.01.2023'' 3],
       Transaction_all = [0, 1, 2], generator_id = Some 4 \<rparr>"

section \<open>Auxiliary facts\<close>

lemma ebind_simps [simp]: "ebind (Inl e) f = Inl e" "ebind (Inr x) f = f x"
  by (simp_all add: ebind_def)

lemma ebind_Inr_iff: "ebind m f = Inr y \<longleftrightarrow> (\<exists>x. m = Inr x \<and> f x = Inr y)"
  by (cases m) simp_all

lemma py_index_nonneg:
  "0 \<le> j \<Longrightarrow> py_index xs j = Inr x \<longleftrightarrow> nat j < length xs \<and> x = xs ! nat j"
  by (auto simp: py_index_def)

lemma py_index_nat: "py_index xs (int j) = Inr x \<longleftrightarrow> j < length xs \<and> x = xs ! j"
  by (simp add: py_index_nonneg)

lemma py_index_nat_add: "py_index xs (int i + int k) = Inr x \<longleftrightarrow> i + k < length xs \<and> x = xs ! (i + k)"
  by (simp add: py_index_nonneg nat_add_distrib)

lemma py_index_nat_add1: "py_index xs (int i + 1) = Inr x \<longleftrightarrow> Suc i < length xs \<and> x = xs ! Suc i"
  by (simp add: py_index_nonneg nat_add_distrib)

lemma py_index_nat_add2: "py_index xs (int i + 2) = Inr x \<longleftrightarrow> i + 2 < length xs \<and> x = xs ! (i + 2)"
  by (simp add: py_index_nonneg nat_add_distrib)

lemma line_at_Inr:
  "line_at lines i k = Inr l \<longleftrightarrow> i + k < length lines \<and> l = str_strip (lines ! (i + k))"
  by (auto simp: line_at_def ebind_Inr_iff py_index_nat_add)

lemma int_at_Inr:
  "int_at lines i k = Inr v \<longleftrightarrow> i + k < length lines \<and> py_int (str_strip (lines ! (i + k))) = Inr v"
  by (auto simp: int_at_def ebind_Inr_iff line_at_Inr)

lemma amount_at_Inr:
  "amount_at lines (int i + 2) = Inr a \<longleftrightarrow>
     i + 2 < length lines \<and> pdf_amount_to_float (str_strip (lines ! (i + 2))) = Inr a"
  by (auto simp: amount_at_def ebind_Inr_iff py_index_nat_add2)

lemma pow2_powi: "pow2 e = 2 powi e"
  by (simp add: pow2_def power_int_def inverse_eq_divide power_one_over)

lemma pow2_pos: "0 < pow2 e"
  by (simp add: pow2_powi)

lemma pow2_add: "pow2 (a + b) = pow2 a * pow2 b"
  by (simp add: pow2_powi power_int_add)

lemma pow2_mono: "a \<le> b \<Longrightarrow> pow2 a \<le> pow2 b"
  by (simp add: pow2_powi power_int_increasing)

lemma bitlen_rat_bounds:
  assumes "0 < p"
  shows "pow2 (bitlen p - 1) \<le> of_int p" and "of_int p < pow2 (bitlen p)"
proof -
  have b: "2 ^ nat (bitlen p - 1) \<le> p" "p < 2 ^ nat (bitlen p)"
    using bitlen_bounds [OF assms] by simp_all
  have pos: "0 < bitlen p" using assms bitlen_eq_zero_iff [of p] bitlen_nonneg [of p] by linarith
  have "pow2 (bitlen p - 1) = of_int (2 ^ nat (bitlen p - 1))"
    using pos by (simp add: pow2_def)
  also have "\<dots> \<le> of_int p" using b(1) by (simp only: of_int_le_iff)
  finally show "pow2 (bitlen p - 1) \<le> of_int p" .
  have "(of_int p :: rat) < of_int (2 ^ nat (bitlen p))" using b(2) by (simp only: of_int_less_iff)
  also have "\<dots> = pow2 (bitlen p)" using pos by (simp add: pow2_def)
  finally show "of_int p < pow2 (bitlen p)" .
qed

lemma ilog2_bounds:
  assumes "x \<noteq> 0"
  shows "pow2 (ilog2 x) \<le> \<bar>x\<bar> \<and> \<bar>x\<bar> < pow2 (ilog2 x + 1)"
proof -
  define p where "p = fst (quotient_of \<bar>x\<bar>)"
  define q where "q = snd (quotient_of \<bar>x\<bar>)"
  define d where "d = bitlen p - bitlen q"
  have qpos: "0 < q" unfolding q_def by (rule quotient_of_denom_pos')
  have xq: "\<bar>x\<bar> = of_int p / of_int q"
    unfolding p_def q_def by (rule quotient_of_div) simp
  have apos: "0 < \<bar>x\<bar>" using assms by simp
  have ppos: "0 < p"
  proof (rule ccontr)
    assume "\<not> 0 < p"
    then have "of_int p \<le> (0::rat)" by simp
    then have "of_int p / of_int q \<le> (0::rat)" using qpos by (simp add: divide_le_0_iff)
    with xq apos show False by simp
  qed
  note P = bitlen_rat_bounds [OF ppos]
  note Q = bitlen_rat_bounds [OF qpos]
  have qr: "(0::rat) < of_int q" using qpos by simp
  have up: "\<bar>x\<bar> < pow2 (d + 1)"
  proof -
    have "of_int p < pow2 (bitlen p)" by (rule P(2))
    also have "pow2 (bitlen p) = pow2 (d + 1) * pow2 (bitlen q - 1)"
      unfolding d_def pow2_add [symmetric] by simp
    also have "\<dots> \<le> pow2 (d + 1) * of_int q"
      using Q(1) pow2_pos [of "d + 1"] by (simp add: mult_left_mono)
    finally have "of_int p < pow2 (d + 1) * of_int q" .
    then show ?thesis unfolding xq using qr by (simp add: pos_divide_less_eq)
  qed
  have lo: "pow2 (d - 1) < \<bar>x\<bar>"
  proof -
    have "pow2 (d - 1) * of_int q < pow2 (d - 1) * pow2 (bitlen q)"
      using Q(2) pow2_pos [of "d - 1"] by (simp add: mult_strict_left_mono)
    also have "\<dots> = pow2 (bitlen p - 1)"
      unfolding d_def pow2_add [symmetric] by simp
    also have "\<dots> \<le> of_int p" by (rule P(1))
    finally have "pow2 (d - 1) * of_int q < of_int p" .
    then show ?thesis unfolding xq using qr by (simp add: pos_less_divide_eq)
  qed
  have il: "ilog2 x = (if pow2 d \<le> \<bar>x\<bar> then d else d - 1)"
    unfolding ilog2_def Let_def p_def [symmetric] q_def [symmetric] d_def [symmetric] ..
  show ?thesis
  proof (cases "pow2 d \<le> \<bar>x\<bar>")
    case True
    then show ?thesis using up il by simp
  next
    case False
    then show ?thesis using lo il by simp
  qed
qed

lemma ilog2_eq:
  assumes "pow2 e \<le> \<bar>x\<bar>" and "\<bar>x\<bar> < pow2 (e + 1)"
  shows "ilog2 x = e"
proof -
  have "x \<noteq> 0" using assms(1) pow2_pos [of e] by auto
  note B = ilog2_bounds [OF this]
  have "\<not> ilog2 x < e"
  proof
    assume "ilog2 x < e"
    then have "pow2 (ilog2 x + 1) \<le> pow2 e" by (simp add: pow2_mono)
    with B assms show False by linarith
  qed
  moreover have "\<not> e < ilog2 x"
  proof
    assume "e < ilog2 x"
    then have "pow2 (e + 1) \<le> pow2 (ilog2 x)" by (simp add: pow2_mono)
    with B assms show False by linarith
  qed
  ultimately show ?thesis by simp
qed

lemma binary64_eq:
  assumes "pow2 e \<le> \<bar>x\<bar>" and "\<bar>x\<bar> < pow2 (e + 1)"
  shows "binary64 x = round_at e x"
proof -
  have "x \<noteq> 0" using assms(1) pow2_pos [of e] by auto
  then show ?thesis by (simp add: binary64_def ilog2_eq [OF assms])
qed

lemma round_half_even_eq:
  assumes "\<bar>x - of_int n\<bar> < 1 / 2"
  shows "round_half_even x = n"
proof (cases "of_int n \<le> x")
  case True
  then have f: "\<lfloor>x\<rfloor> = n" using assms by (intro floor_unique) (auto simp: abs_if split: if_splits)
  show ?thesis using assms True by (simp add: round_half_even_def f Let_def)
next
  case False
  then have f: "\<lfloor>x\<rfloor> = n - 1" using assms by (intro floor_unique) (auto simp: abs_if split: if_splits)
  show ?thesis using assms False by (simp add: round_half_even_def f Let_def)
qed

lemma binary64_cert:
  assumes "pow2 e \<le> \<bar>x\<bar>" and "\<bar>x\<bar> < pow2 (e + 1)"
    and "\<bar>x / pow2 (max e (- 1022) - 52) - of_int n\<bar> < 1 / 2"
    and "\<bar>of_int n * pow2 (max e (- 1022) - 52)\<bar> < pow2 1024"
  shows "binary64 x = Finite (of_int n * pow2 (max e (- 1022) - 52))"
  using assms(4)
  by (simp add: binary64_eq [OF assms(1,2)] round_at_def Let_def round_half_even_eq [OF assms(3)])

text \<open>The floats of the examples, each with the exponent and the significand it rounds to.\<close>

lemma binary64_m120: "binary64 (- 120) = Finite (- 120)"
  using binary64_cert [of 6 "- 120" "- 120 * 2 ^ 46"] by (simp add: pow2_def)

lemma binary64_3_2: "binary64 (3 / 2) = Finite (3 / 2)"
  using binary64_cert [of 0 "3 / 2" "3 * 2 ^ 51"] by (simp add: pow2_def)

lemmas str_eval = ascii_def str_strip_def isspace_def str_replace_def str_lower_def lower_char_def
  is_digit_def str_isdigit_def digits_val_def last4_def

lemmas float_eval = py_float_def parse_decimal_def parse_exponent_def pow10_def

lemma py_float_m120: "py_float (ascii ''-120.00'') = Inr (Finite (- 120))"
  by (simp add: float_eval str_eval binary64_m120)

lemma py_float_1_50: "py_float (ascii ''1.50'') = Inr (Finite (3 / 2))"
  by (simp add: float_eval str_eval binary64_3_2)



lemma round_half_even_int [simp]: "round_half_even (of_int n) = n"
  by (simp add: round_half_even_def)

lemma binary64_m250: "binary64 (- 250) = Finite (- 250)"
  using binary64_cert [of 7 "- 250" "- 250 * 2 ^ 45"] by (simp add: pow2_def)




lemma amount_m250: "pdf_amount_to_float (ascii ''-250,00'') = Inr (Finite (- 250))"
  by (simp add: pdf_amount_to_float_def float_eval str_eval binary64_m250 round_half_even_def)

lemmas amount_m250_raw = amount_m250 [unfolded ascii_def, simplified]

lemmas date_eval = get_date_from_string_def strptime_revolut_def cut_def tok_Y_def valid_date_def
  days_in_month_def is_leap_def two_digits_def

lemma date_started: "get_date_from_string (ascii ''2023-01-05 10:00:00'') = Inr (ascii ''05.01.2023'')"
  by (simp add: date_eval str_eval Let_def)

lemma date_completed: "get_date_from_string (ascii ''2023-01-06 11:30:00'') = Inr (ascii ''06.01.2023'')"
  by (simp add: date_eval str_eval Let_def)

lemma revolut_row_simps:
  "revolut_row ty amt fee state (ascii ''Type'') = Some (ascii ty)"
  "revolut_row ty amt fee state (ascii ''Started Date'') = Some (ascii ''2023-01-05 10:00:00'')"
  "revolut_row ty amt fee state (ascii ''Completed Date'') = Some (ascii ''2023-01-06 11:30:00'')"
  "revolut_row ty amt fee state (ascii ''Description'') = Some (ascii ''Shop'')"
  "revolut_row ty amt fee state (ascii ''Amount'') = Some (ascii amt)"
  "revolut_row ty amt fee state (ascii ''Fee'') = Some (ascii fee)"
  "revolut_row ty amt fee state (ascii ''Currency'') = Some (ascii ''CZK'')"
  "revolut_row ty amt fee state (ascii ''State'') = Some (ascii state)"
  by (simp_all add: revolut_row_def row_of_def ascii_def)

lemma row_date_simps:
  "row_date (Some (ascii ''2023-01-05 10:00:00'')) = Inr (ascii ''05.01.2023'')"
  "row_date (Some (ascii ''2023-01-06 11:30:00'')) = Inr (ascii ''06.01.2023'')"
  using date_started date_completed by (simp_all add: row_date_def ascii_def)

section \<open>The PDF engine\<close>

text \<open>
  The example pages, evaluated: the rules succeed on them, the marker line opens the
  class the layout belongs to, and the line after the marker of the CS page is a line of
  the body.
\<close>

lemmas rule_eval = date_cs_def date_csob_def text_contains_date_def amount_by_search_def
  get_amount_line_def is_amount_line_def amount_at_def account_and_amount_def line_at_def int_at_def
  card_of_line_def date_of_line_def py_index_def py_int_def get_account_nr_line_def

lemma csob_card_create:
  "\<exists>t. create CardPaymentDebit (Some Csob) (Some (ascii ''2023'')) sa acc 1 csob_card_page = Inr (Some t)"
  by (simp add: CardPaymentDebit_create_def csob_card_page_def rule_eval str_eval amount_m250_raw is_word_char_def)




lemma marker_cs_card:
  "first_marker (Some Cs) (ascii ''Platba kartou 05.01.2023'') = Inr (Some CardPaymentDebit)"
  by (simp add: first_marker_def has_marker_def ascii_def)


text \<open>
  C2. When the CSOB rule for a card payment (\<open>CardPaymentDebit\<close>, and
  \<open>CardPaymentIncoming\<close> alike) returns for the marker at line \<open>i\<close>, it has produced a
  transaction, the page has the lines up to \<open>i + 9\<close>, the variable symbol is the number
  in line \<open>i + 4\<close>, the constant symbol the number in line \<open>i + 5\<close>, the specific symbol the
  number in line \<open>i + 6\<close>, the card identifier the last four characters of the stripped
  line \<open>i + 6\<close>, and the vendor text the stripped line \<open>i + 7\<close> followed by the stripped line
  \<open>i + 9\<close>.
\<close>

theorem C2_csob_card_offsets:
  assumes "k = CardPaymentDebit \<or> k = CardPaymentIncoming"
    and "create k (Some Csob) yr sa acc i lines = Inr r"
  shows "\<exists>t vs ks ss.
           r = Some t \<and> i + 9 < length lines \<and>
           py_int (str_strip (lines ! (i + 4))) = Inr vs \<and> variable_symbol t = Some vs \<and>
           py_int (str_strip (lines ! (i + 5))) = Inr ks \<and> constant_symbol t = Some ks \<and>
           py_int (str_strip (lines ! (i + 6))) = Inr ss \<and> specific_symbol t = Some ss \<and>
           card_identifier t = Some (last4 (str_strip (lines ! (i + 6)))) \<and>
           vendor_text t = Some (str_strip (lines ! (i + 7)) @ str_strip (lines ! (i + 9)))"
  using assms
  by (auto simp: CardPaymentDebit_create_def CardPaymentIncoming_create_def ebind_Inr_iff
      line_at_Inr int_at_Inr)

theorem C2_witness:
  "\<exists>t. create CardPaymentDebit (Some Csob) (Some (ascii ''2023'')) None None 1 csob_card_page
         = Inr (Some t) \<and>
       variable_symbol t = Some 1234567890 \<and> constant_symbol t = Some 1178 \<and>
       specific_symbol t = Some 4400001563 \<and> card_identifier t = Some (ascii ''1563'') \<and>
       vendor_text t = Some (ascii ''Misto: ALBERTPRAHA 4'')"
proof -
  obtain t where t:
    "create CardPaymentDebit (Some Csob) (Some (ascii ''2023'')) None None 1 csob_card_page
       = Inr (Some t)"
    using csob_card_create by blast
  have l: "str_strip (csob_card_page ! 5) = ascii ''1234567890''"
    "str_strip (csob_card_page ! 6) = ascii ''1178''"
    "str_strip (csob_card_page ! 7) = ascii ''4400001563''"
    "str_strip (csob_card_page ! 8) = ascii ''Misto: ALBERT''"
    "str_strip (csob_card_page ! 10) = ascii ''PRAHA 4''"
    by (simp_all add: csob_card_page_def str_eval)
  have n: "py_int (ascii ''1234567890'') = Inr 1234567890" "py_int (ascii ''1178'') = Inr 1178"
    "py_int (ascii ''4400001563'') = Inr 4400001563"
    "last4 (ascii ''4400001563'') = ascii ''1563''"
    "ascii ''Misto: ALBERT'' @ ascii ''PRAHA 4'' = ascii ''Misto: ALBERTPRAHA 4''"
    by (simp_all add: py_int_def str_eval)
  from C2_csob_card_offsets [OF _ t] show ?thesis
    using t by (auto simp: l n)
qed



text \<open>A rule that returns has found every line it indexes at a fixed offset.\<close>

lemma in_range_IncomingPayment_cs:
  "IncomingPayment_create (Some Cs) yr sa acc i lines = Inr r \<Longrightarrow> i + 1 < length lines"
  by (clarsimp simp: IncomingPayment_create_def ebind_Inr_iff line_at_Inr)

lemma in_range_OutgoingPayment_cs:
  "OutgoingPayment_create (Some Cs) yr sa acc i lines = Inr r \<Longrightarrow>
     Suc i < length lines \<and> (str_contains okamzita (lines ! Suc i) \<longrightarrow> i + 2 < length lines)"
  by (clarsimp simp: OutgoingPayment_create_def ebind_Inr_iff line_at_Inr py_index_nat_add1)

lemma in_range_CardPaymentDebit_cs:
  "CardPaymentDebit_create (Some Cs) yr sa acc i lines = Inr r \<Longrightarrow> i + 6 < length lines"
  by (clarsimp simp: CardPaymentDebit_create_def ebind_Inr_iff line_at_Inr)

lemma in_range_CardPaymentDebit_csob:
  "CardPaymentDebit_create (Some Csob) yr sa acc i lines = Inr r \<Longrightarrow> i + 9 < length lines"
  by (clarsimp simp: CardPaymentDebit_create_def ebind_Inr_iff line_at_Inr)

lemma in_range_CardPaymentIncoming_cs:
  "CardPaymentIncoming_create (Some Cs) yr sa acc i lines = Inr r \<Longrightarrow> i + 7 < length lines"
  by (clarsimp simp: CardPaymentIncoming_create_def ebind_Inr_iff line_at_Inr)

lemma in_range_CardPaymentIncoming_csob:
  "CardPaymentIncoming_create (Some Csob) yr sa acc i lines = Inr r \<Longrightarrow> i + 9 < length lines"
  by (clarsimp simp: CardPaymentIncoming_create_def ebind_Inr_iff line_at_Inr)

lemma in_range_CardAtmCashOut_cs:
  "CardAtmCashOut_create (Some Cs) yr sa acc i lines = Inr r \<Longrightarrow>
     i + 6 < length lines \<and> (str_contains jine_banky (lines ! Suc i) \<longrightarrow> i + 7 < length lines)"
  by (clarsimp simp: CardAtmCashOut_create_def ebind_Inr_iff line_at_Inr py_index_nat_add1 Let_def
      split: if_splits)

lemma in_range_CardAtmDeposit_cs:
  "CardAtmDeposit_create (Some Cs) yr sa acc i lines = Inr r \<Longrightarrow> i + 3 < length lines"
  by (clarsimp simp: CardAtmDeposit_create_def ebind_Inr_iff int_at_Inr)

lemma in_range_InterestPositive_csob:
  "InterestPositive_create (Some Csob) yr sa acc i lines = Inr r \<Longrightarrow> i + 2 < length lines"
  by (clarsimp simp: InterestPositive_create_def ebind_Inr_iff amount_at_Inr)

lemma service_in_range:
  assumes "get_cs_bank_service_type i lines = Inr sv" and "off \<in> set (service_offsets i lines)"
  shows "i + off < length lines"
  using assms
  by (auto simp: get_cs_bank_service_type_def service_offsets_def cs_service_types_def
      ebind_Inr_iff py_index_nat_add1 py_index_nat_add2 split: if_splits)

lemma in_range_BankPayedService_cs:
  "BankPayedService_create (Some Cs) yr sa acc i lines = Inr r \<Longrightarrow>
     off \<in> set (service_offsets i lines) \<Longrightarrow> i + off < length lines"
  by (clarsimp simp: BankPayedService_create_def ebind_Inr_iff) (rule service_in_range)

lemma bank_cases:
  obtains "b = None" | "b = Some Revolut" | "b = Some Cs" | "b = Some Csob"
  by (cases b; cases "the b") auto

lemma create_in_range:
  assumes "create k b yr sa acc i lines = Inr r" and "off \<in> set (rule_offsets k b i lines)"
  shows "i + off < length lines"
proof (cases b rule: bank_cases)
  case 1
  then show ?thesis using assms(2) by (cases k) simp_all
next
  case 2
  then show ?thesis using assms(2) by (cases k) simp_all
next
  case 3
  then show ?thesis using assms
    by (cases k)
       (auto dest!: in_range_IncomingPayment_cs in_range_OutgoingPayment_cs
          in_range_CardPaymentDebit_cs in_range_CardPaymentIncoming_cs in_range_CardAtmCashOut_cs
          in_range_CardAtmDeposit_cs dest: in_range_BankPayedService_cs split: if_splits)
next
  case 4
  then show ?thesis using assms
    by (cases k)
       (auto dest!: in_range_CardPaymentDebit_csob in_range_CardPaymentIncoming_csob
          in_range_InterestPositive_csob)
qed

text \<open>An exception raised for a line leaves the loops over the lines and the pages.\<close>

lemma efold_append: "efold f (xs @ ys) s = ebind (efold f xs s) (efold f ys)"
proof (induction xs arbitrary: s)
  case Nil
  show ?case by simp
next
  case (Cons x xs)
  show ?case by (cases "f s x") (simp_all add: Cons.IH)
qed

lemma efold_stops:
  assumes "efold f xs s = Inr s1" and "f s1 x = Inl e"
  shows "efold f (xs @ x # ys) s = Inl e"
  using assms by (simp add: efold_append)

lemma process_page_stops:
  assumes "i < length page"
    and "efold (\<lambda>st j. process_line st j page) [0..<i] st1 = Inr st"
    and "process_line st i page = Inl e"
  shows "process_page st1 page = Inl e"
proof -
  have "[0..<length page] = [0..<i] @ i # [Suc i..<length page]"
    using assms(1) by (metis le0 upt_add_eq_append upt_conv_Cons less_imp_le_nat le_add_diff_inverse)
  then show ?thesis
    unfolding process_page_def using efold_stops [OF assms(2), of i e] assms(3) by simp
qed

lemma get_transactions_pdf_stops:
  assumes "p < length (pages_content_pdf s0)" and "i < length (pages_content_pdf s0 ! p)"
    and "state_at s0 w0 p i = Inr st"
    and "process_line st i (pages_content_pdf s0 ! p) = Inl e"
  shows "get_transactions_pdf s0 w0 = Inl e"
proof -
  let ?pages = "pages_content_pdf s0"
  from assms(3) obtain st1 where
    a: "efold process_page (take p ?pages) (s0, w0, False) = Inr st1" and
    b: "efold (\<lambda>st j. process_line st j (?pages ! p)) [0..<i] st1 = Inr st"
    by (auto simp: state_at_def ebind_Inr_iff)
  have "process_page st1 (?pages ! p) = Inl e"
    by (rule process_page_stops [OF assms(2) b assms(4)])
  then have "efold process_page (take p ?pages @ ?pages ! p # drop (Suc p) ?pages) (s0, w0, False) = Inl e"
    by (rule efold_stops [OF a])
  then have "efold process_page ?pages (s0, w0, False) = Inl e"
    using assms(1) by (simp add: id_take_nth_drop [symmetric])
  then show ?thesis by (simp add: get_transactions_pdf_def)
qed

lemma process_line_marker:
  assumes "first_marker (bank_name s) (page ! i) = Inr (Some k)"
  shows "process_line (s, w, active) i page = open_transaction k s w i page"
  using assms by (simp add: process_line_def)

text \<open>
  A line of \<open>TRANSACTION_END_SECTION\<close> without a marker closes the section: nothing is
  appended and the flag is cleared. The sixth line of the list does so with its no-break
  space, and not with a plain space in that place.
\<close>

lemma process_line_end_section:
  assumes "first_marker (bank_name s) (page ! i) = Inr None"
    and "page ! i \<in> set TRANSACTION_END_SECTION"
  shows "process_line (s, w, active) i page = Inr (s, w, False)"
  using assms by (simp add: process_line_def)

lemma end_section_no_break_space:
  "ascii ''Pros'' @ [237] @ ascii ''me V'' @ [225] @ ascii ''s o v'' @ [269] @ ascii ''asn'' @ [233]
     @ ascii '' p'' @ [345] @ ascii ''ekontrolov'' @ [225] @ ascii ''n'' @ [237] @ ascii '' uveden''
     @ [253] @ ascii ''ch '' @ [250] @ ascii ''daj'' @ [367] @ ascii ''. V'' @ [160] @ ascii ''p''
     @ [345, 237] @ ascii ''pad'' @ [283] @ ascii '' nesouhlasu kontaktujte pros'' @ [237]
     @ ascii ''m svoje obchodn'' @ [237] @ ascii '' m'' @ [237]
     @ ascii ''sto nebo volejte na telefon'' \<in> set TRANSACTION_END_SECTION"
  "ascii ''Pros'' @ [237] @ ascii ''me V'' @ [225] @ ascii ''s o v'' @ [269] @ ascii ''asn'' @ [233]
     @ ascii '' p'' @ [345] @ ascii ''ekontrolov'' @ [225] @ ascii ''n'' @ [237] @ ascii '' uveden''
     @ [253] @ ascii ''ch '' @ [250] @ ascii ''daj'' @ [367] @ ascii ''. V p''
     @ [345, 237] @ ascii ''pad'' @ [283] @ ascii '' nesouhlasu kontaktujte pros'' @ [237]
     @ ascii ''m svoje obchodn'' @ [237] @ ascii '' m'' @ [237]
     @ ascii ''sto nebo volejte na telefon'' \<notin> set TRANSACTION_END_SECTION"
  by (simp_all add: TRANSACTION_END_SECTION_def ascii_def)

text \<open>
  C3. Let \<open>get_transactions_pdf\<close> arrive at line \<open>i\<close> of page \<open>p\<close>, let the line open a
  transaction of class \<open>k\<close>, and let \<open>off\<close> be a fixed offset of the rule of \<open>k\<close> for the bank
  that points past the last line of the page. Then the rule raises an exception (it
  returns no transaction), the same exception leaves the step of the engine, and the
  extraction of the file ends with it.
\<close>

theorem C3_offset_past_end_raises:
  assumes "p < length (pages_content_pdf s0)" and "i < length (pages_content_pdf s0 ! p)"
    and "state_at s0 w0 p i = Inr (s, w, active)"
    and "first_marker (bank_name s) (pages_content_pdf s0 ! p ! i) = Inr (Some k)"
    and "off \<in> set (rule_offsets k (bank_name s) i (pages_content_pdf s0 ! p))"
    and "length (pages_content_pdf s0 ! p) \<le> i + off"
  shows "\<exists>e. create k (bank_name s) (stmt_year s) (account_number s) (account_number s) i
                (pages_content_pdf s0 ! p) = Inl e \<and>
              process_line (s, w, active) i (pages_content_pdf s0 ! p) = Inl e \<and>
              get_transactions_pdf s0 w0 = Inl e"
proof -
  let ?page = "pages_content_pdf s0 ! p"
  let ?c = "create k (bank_name s) (stmt_year s) (account_number s) (account_number s) i ?page"
  have "\<not> (\<exists>r. ?c = Inr r)"
    using create_in_range [OF _ assms(5)] assms(6) by fastforce
  then obtain e where e: "?c = Inl e" by (cases ?c) auto
  have pl: "process_line (s, w, active) i ?page = Inl e"
    using process_line_marker [OF assms(4)] e by (simp add: open_transaction_def)
  have "get_transactions_pdf s0 w0 = Inl e"
    by (rule get_transactions_pdf_stops [OF assms(1,2,3) pl])
  with e pl show ?thesis by blast
qed

theorem C3_witness:
  "\<exists>e. get_transactions_pdf (pdf_statement Cs [cs_card_page_cut]) empty_world = Inl e"
proof -
  let ?s = "pdf_statement Cs [cs_card_page_cut]"
  have pg: "pages_content_pdf ?s ! 0 = cs_card_page_cut" "length (pages_content_pdf ?s) = 1"
    by (simp_all add: pdf_statement_def)
  have len: "length cs_card_page_cut = 4"
    by (simp add: cs_card_page_cut_def cs_card_page_def)
  have l0: "cs_card_page_cut ! 0 = ascii ''Platba kartou 05.01.2023''"
    by (simp add: cs_card_page_cut_def cs_card_page_def)
  have st: "state_at ?s empty_world 0 0 = Inr (?s, empty_world, False)"
    by (simp add: state_at_def)
  have bn: "bank_name ?s = Some Cs" by (simp add: pdf_statement_def)
  have m: "first_marker (bank_name ?s) (pages_content_pdf ?s ! 0 ! 0) = Inr (Some CardPaymentDebit)"
    by (simp add: pg l0 bn marker_cs_card)
  have off: "6 \<in> set (rule_offsets CardPaymentDebit (bank_name ?s) 0 (pages_content_pdf ?s ! 0))"
    by (simp add: bn)
  from C3_offset_past_end_raises [of 0 ?s 0 empty_world ?s empty_world False CardPaymentDebit 6,
      OF _ _ st m off]
  show ?thesis by (auto simp: pg len)
qed























section \<open>The CSV path\<close>

text \<open>
  C7. A row whose state is not \<open>Completed\<close>, whatever the case of its letters, produces no
  transaction: either the row is skipped and the statement and the registry are as they
  were, or reading the row raised an exception (an unreadable amount, fee or date), which
  appends nothing either.
\<close>

theorem C7_row_not_completed:
  assumes "r (ascii ''State'') = Some state" and "str_lower state \<noteq> ascii ''completed''"
  shows "process_row st r = Inr st \<or> (\<exists>e. process_row st r = Inl e)"
proof -
  have nv: "\<not> is_transaction_valid state" using assms(2) by (simp add: is_transaction_valid_def)
  show ?thesis
    unfolding process_row_def
    by (cases "row_date (r (ascii ''Started Date''))"; cases "row_date (r (ascii ''Completed Date''))";
        cases "row_float (r (ascii ''Amount''))"; cases "row_float (r (ascii ''Fee''))")
       (simp_all add: assms(1) nv)
qed

theorem C7_witness:
  "process_row (csv_statement, empty_world) (revolut_row ''card_payment'' ''-120.00'' ''1.50'' ''Reverted'')
     = Inr (csv_statement, empty_world)"
proof -
  have s: "revolut_row ''card_payment'' ''-120.00'' ''1.50'' ''Reverted'' (ascii ''State'')
             = Some (ascii ''Reverted'')"
    by (rule revolut_row_simps)
  have n: "str_lower (ascii ''Reverted'') \<noteq> ascii ''completed''"
    by (simp add: str_eval)
  from C7_row_not_completed [where r = "revolut_row ''card_payment'' ''-120.00'' ''1.50'' ''Reverted''"
      and state = "ascii ''Reverted''" and st = "(csv_statement, empty_world)", OF s n]
  show ?thesis
    using n
    by (simp add: process_row_def revolut_row_simps row_date_simps row_float_def
        py_float_m120 py_float_1_50 is_transaction_valid_def)
qed











section \<open>Reconciliation of a statement\<close>

text \<open>
  An integer below \<open>2 ^ 53\<close> is a binary64 number: the conversion leaves it as it is.
\<close>

lemma pow2_inverse: "pow2 a * pow2 (- a) = 1"
  using pow2_add [of a "- a"] by (simp add: pow2_def)

lemma binary64_int:
  assumes "n \<noteq> 0" and "\<bar>n\<bar> < 2 ^ 53"
  shows "binary64 (of_int n) = Finite (of_int n)"
proof -
  define e where "e = bitlen \<bar>n\<bar> - 1"
  have pos: "0 < \<bar>n\<bar>" using assms(1) by simp
  have b: "pow2 e \<le> \<bar>of_int n\<bar>" "\<bar>of_int n :: rat\<bar> < pow2 (e + 1)"
    using bitlen_rat_bounds [OF pos] by (simp_all add: e_def)
  have e0: "0 \<le> e"
    using pos bitlen_eq_zero_iff [of "\<bar>n\<bar>"] bitlen_nonneg [of "\<bar>n\<bar>"] by (simp add: e_def)
  have "bitlen \<bar>n\<bar> \<le> 53"
    using assms(2) by (simp add: bitlen_le_iff_power)
  then have e52: "e \<le> 52" by (simp add: e_def)
  have q: "pow2 (max e (- 1022) - 52) = pow2 (e - 52)" using e0 by (simp add: max_def)
  have sc: "of_int n / pow2 (e - 52) = of_int (n * 2 ^ nat (52 - e))"
  proof -
    have "pow2 (e - 52) * pow2 (52 - e) = 1" using pow2_inverse [of "e - 52"] by simp
    then have "1 / pow2 (e - 52) = pow2 (52 - e)"
      using pow2_pos [of "e - 52"] by (simp add: field_simps)
    moreover have "pow2 (52 - e) = of_int (2 ^ nat (52 - e))" using e52 by (simp add: pow2_def)
    ultimately have "1 / pow2 (e - 52) = of_int (2 ^ nat (52 - e))" by simp
    then have "of_int n * (1 / pow2 (e - 52)) = of_int n * of_int (2 ^ nat (52 - e))"
      by (simp only:)
    then show ?thesis by simp
  qed
  have bk: "of_int (n * 2 ^ nat (52 - e)) * pow2 (e - 52) = (of_int n :: rat)"
    using sc pow2_pos [of "e - 52"] by (simp add: field_simps)
  have "\<bar>of_int n :: rat\<bar> < 2 ^ 53" using assms(2) by (metis of_int_abs of_int_less_iff of_int_numeral of_int_power)
  also have "(2::rat) ^ 53 \<le> 2 ^ 1024" by (rule power_increasing) simp_all
  finally have small: "\<not> pow2 1024 \<le> \<bar>of_int n :: rat\<bar>" by (simp add: pow2_def)
  show ?thesis
    unfolding binary64_eq [OF b] round_at_def Let_def q sc round_half_even_int bk
    using small by simp
qed

lemma binary64_numeral:
  "numeral k < (2::int) ^ 53 \<Longrightarrow> binary64 (numeral k) = Finite (numeral k)"
  "numeral k < (2::int) ^ 53 \<Longrightarrow> binary64 (- numeral k) = Finite (- numeral k)"
  using binary64_int [of "numeral k"] binary64_int [of "- numeral k"] by simp_all

lemma round_half_even_numeral [simp]:
  "round_half_even (numeral k) = numeral k" "round_half_even (- numeral k) = - numeral k"
  using round_half_even_int [of "numeral k"] round_half_even_int [of "- numeral k"] by simp_all

lemma validate_statement_balances:
  assumes "start_balance s = Some b" and "end_balance s = Some e"
  shows "validate_statement w s =
           Inr (Path (file_path s) #
                (if fne (py_round2 (fsub e b)) (py_round2 (amounts_sum w s))
                 then [Warning (py_round2 (fsub (fsub e b) (amounts_sum w s)))] else []))"
  using assms by (simp add: validate_statement_def balance_delta_def)

lemma validate_480:
  "validate_statement (one_amount (Finite 480)) balanced_statement =
     Inr [Path (ascii ''statement.pdf''), Warning (Finite 20)]"
  by (simp add: validate_statement_balances [of _ "Finite 1000" "Finite 1500"]
      balanced_statement_def pdf_statement_def one_amount_def amounts_sum_def py_sum_def fsub_def
      fne_def new_tx_def binary64_numeral)

lemma validate_500:
  "validate_statement (one_amount (Finite 500)) balanced_statement =
     Inr [Path (ascii ''statement.pdf'')]"
  by (simp add: validate_statement_balances [of _ "Finite 1000" "Finite 1500"]
      balanced_statement_def pdf_statement_def one_amount_def amounts_sum_def py_sum_def fsub_def
      fne_def new_tx_def binary64_numeral)

text \<open>
  Claim C6. The reconciliation subtracts the opening from the closing balance before anything
  else. A statement on which no balance was found holds \<open>None\<close> in both fields: the
  export of an account with a header line and no rows is read without an exception, no
  balance is set, no transaction is extracted, and \<open>validate_all_transactions_extracted\<close>
  on it raises \<open>TypeError\<close>, so processing does not continue. (For a statement with both
  balances the check is the stated comparison: \<open>validate_statement_balances\<close>, with the two
  examples \<open>validate_480\<close> and \<open>validate_500\<close>.)
\<close>

theorem C6_no_balance_raises:
  "get_account_start_balance_csv csv_statement = Inr csv_statement \<and>
   get_account_end_balance_csv csv_statement = Inr csv_statement \<and>
   get_transactions_csv csv_statement empty_world = Inr (csv_statement, empty_world) \<and>
   validate_all_transactions_extracted [csv_statement] empty_world = Inl TypeError"
  by (simp add: get_account_start_balance_csv_def get_account_end_balance_csv_def
      get_transactions_csv_def validate_all_transactions_extracted_def validate_statement_def
      balance_delta_def csv_statement_def)

section \<open>Sorting and renumbering the registry\<close>

lemma emap_total:
  assumes "\<forall>x\<in>set xs. \<exists>y. f x = Inr y"
  shows "emap f xs = Inr (map (\<lambda>x. projr (f x)) xs)"
  using assms by (induction xs) auto

lemma sort_transactions_ok:
  assumes "\<forall>a\<in>set (Transaction_all w). \<exists>d. get_sort_key (heap w ! a) = Inr d"
  shows "sort_transactions w =
           Inr (w\<lparr>Transaction_all :=
                    map snd (sort_key fst (zip (map (\<lambda>a. projr (get_sort_key (heap w ! a)))
                                                  (Transaction_all w)) (Transaction_all w)))\<rparr>)"
  using emap_total [OF assms] by (simp add: sort_transactions_def)

lemma zip_keys_sorted:
  fixes f :: "'a \<Rightarrow> 'k::linorder"
  shows "map f (map snd (sort_key fst (zip (map f xs) xs))) = map fst (sort_key fst (zip (map f xs) xs))"
proof -
  have "\<forall>p\<in>set (sort_key fst (zip (map f xs) xs)). f (snd p) = fst p"
    by (auto simp: in_set_zip)
  then show ?thesis by (simp add: map_eq_conv)
qed

lemma sorted_by_key:
  fixes f :: "'a \<Rightarrow> 'k::linorder"
  shows "sorted (map f (map snd (sort_key fst (zip (map f xs) xs))))"
  unfolding zip_keys_sorted by (rule sorted_sort_key)

lemma mset_by_key:
  fixes f :: "'a \<Rightarrow> 'k::linorder"
  shows "mset (map snd (sort_key fst (zip (map f xs) xs))) = mset xs"
proof -
  have z: "map snd (zip (map f xs) xs) = xs" by (simp add: map_snd_zip)
  have "mset (map snd (sort_key fst (zip (map f xs) xs))) = image_mset snd (mset (zip (map f xs) xs))"
    by simp
  also have "\<dots> = mset (map snd (zip (map f xs) xs))" by (simp only: mset_map)
  finally show ?thesis by (simp only: z)
qed

lemma renumber_length [simp]: "length (renumber i refs h) = length h"
  by (induction refs arbitrary: i h) simp_all

lemma renumber_other:
  "a \<notin> set refs \<Longrightarrow> renumber i refs h ! a = h ! a"
  by (induction refs arbitrary: i h) simp_all

lemma renumber_fields:
  "a < length h \<Longrightarrow>
     (renumber i refs h ! a)\<lparr>transaction_id := 0\<rparr> = (h ! a)\<lparr>transaction_id := 0\<rparr>"
proof (induction refs arbitrary: i h)
  case Nil
  show ?case by simp
next
  case (Cons r refs)
  show ?case
    using Cons.IH [of "h[r := (h ! r)\<lparr>transaction_id := int i + 1\<rparr>]" "Suc i"] Cons.prems
    by (cases "a = r") simp_all
qed

lemma renumber_ids:
  assumes "distinct refs" and "\<forall>a\<in>set refs. a < length h" and "j < length refs"
  shows "transaction_id (renumber i refs h ! (refs ! j)) = int i + int j + 1"
  using assms
proof (induction refs arbitrary: i h j)
  case Nil
  then show ?case by simp
next
  case (Cons r refs)
  show ?case
  proof (cases j)
    case 0
    then show ?thesis using Cons.prems by (simp add: renumber_other)
  next
    case (Suc j')
    then show ?thesis
      using Cons.IH [of "h[r := (h ! r)\<lparr>transaction_id := int i + 1\<rparr>]" j' "Suc i"] Cons.prems
      by simp
  qed
qed

lemma renumber_ids_map:
  assumes "distinct refs" and "\<forall>a\<in>set refs. a < length h"
  shows "map (\<lambda>a. transaction_id (renumber 0 refs h ! a)) refs = map int [1..<Suc (length refs)]"
proof (rule nth_equalityI)
  show "length (map (\<lambda>a. transaction_id (renumber 0 refs h ! a)) refs) =
        length (map int [1..<Suc (length refs)])" by (simp del: upt_Suc)
next
  fix j assume "j < length (map (\<lambda>a. transaction_id (renumber 0 refs h ! a)) refs)"
  then have j: "j < length refs" by simp
  then show "map (\<lambda>a. transaction_id (renumber 0 refs h ! a)) refs ! j =
             map int [1..<Suc (length refs)] ! j"
    using renumber_ids [OF assms j, of 0] by (simp add: nth_upt del: upt_Suc)
qed

text \<open>
  Claim C5. On a registry of distinct transactions whose booking dates all parse,
  \<open>save_transactions_json\<close> (the sort followed by the renumbering) returns; the registry is
  a permutation of the old one, ordered by the pair of booking date and original id
  (that is by date, and by original id within a day); the ids read along the registry are
  \<open>1, 2, \<dots>, N\<close>; and no other field of any transaction changes.
\<close>

theorem C5_sort_then_renumber:
  assumes "distinct (Transaction_all w)"
    and "\<forall>a\<in>set (Transaction_all w). a < length (heap w)"
    and "\<forall>a\<in>set (Transaction_all w). \<exists>d. get_sort_key (heap w ! a) = Inr d"
  shows "\<exists>w' objs.
           save_transactions_json w = Inr (w', objs) \<and>
           mset (Transaction_all w') = mset (Transaction_all w) \<and>
           sorted (map (\<lambda>a. projr (get_sort_key (heap w ! a))) (Transaction_all w')) \<and>
           map (\<lambda>a. transaction_id (heap w' ! a)) (Transaction_all w') =
             map int [1..<Suc (length (Transaction_all w))] \<and>
           length (heap w') = length (heap w) \<and>
           (\<forall>a<length (heap w).
              (heap w' ! a)\<lparr>transaction_id := 0\<rparr> = (heap w ! a)\<lparr>transaction_id := 0\<rparr>)"
proof -
  let ?key = "\<lambda>a. projr (get_sort_key (heap w ! a))"
  let ?refs = "map snd (sort_key fst (zip (map ?key (Transaction_all w)) (Transaction_all w)))"
  let ?w1 = "w\<lparr>Transaction_all := ?refs\<rparr>"
  let ?w2 = "?w1\<lparr>heap := renumber 0 ?refs (heap w)\<rparr>"
  have ms: "mset ?refs = mset (Transaction_all w)" by (rule mset_by_key)
  then have st: "set ?refs = set (Transaction_all w)" by (rule mset_eq_setD)
  have di: "distinct ?refs" using ms assms(1) by (metis mset_eq_imp_distinct_iff)
  have le: "length ?refs = length (Transaction_all w)" using ms by (rule mset_eq_length)
  have bd: "\<forall>a\<in>set ?refs. a < length (heap w)" using st assms(2) by simp
  have sv: "save_transactions_json w = Inr (?w2, map (\<lambda>a. to_json (heap ?w2 ! a)) (Transaction_all ?w2))"
    by (simp add: save_transactions_json_def sort_transactions_ok [OF assms(3)] Let_def)
  have so: "sorted (map ?key ?refs)" by (rule sorted_by_key)
  have ids: "map (\<lambda>a. transaction_id (renumber 0 ?refs (heap w) ! a)) ?refs =
             map int [1..<Suc (length (Transaction_all w))]"
    using renumber_ids_map [OF di bd] le by simp
  show ?thesis
    using sv ms so ids
    by (intro exI [of _ ?w2] exI [of _ "map (\<lambda>a. to_json (heap ?w2 ! a)) (Transaction_all ?w2)"])
       (simp add: renumber_fields)
qed

lemma three_keys:
  "get_sort_key (dated ''06.01.2023'' 1) = Inr ((2023, 1, 6), 1)"
  "get_sort_key (dated ''05.01.2023'' 2) = Inr ((2023, 1, 5), 2)"
  "get_sort_key (dated ''05.01.2023'' 3) = Inr ((2023, 1, 5), 3)"
  by (simp_all add: get_sort_key_def dated_def new_tx_def strptime_dmY_def cut_def tok_Y_def
      valid_date_def days_in_month_def is_leap_def ascii_def is_digit_def digits_val_def)

lemma three_world_saved:
  "save_transactions_json three_world =
     Inr (three_world\<lparr>Transaction_all := [1, 2, 0],
            heap := [dated ''06.01.2023'' 3, dated ''05.01.2023'' 1, dated ''05.01.2023'' 2]\<rparr>,
          map to_json [dated ''05.01.2023'' 1, dated ''05.01.2023'' 2, dated ''06.01.2023'' 3])"
proof -
  have h: "heap three_world ! 0 = dated ''06.01.2023'' 1" "heap three_world ! 1 = dated ''05.01.2023'' 2"
    "heap three_world ! 2 = dated ''05.01.2023'' 3" "Transaction_all three_world = [0, 1, 2]"
    "length (heap three_world) = 3" "heap three_world ! Suc 0 = dated ''05.01.2023'' 2"
    by (simp_all add: three_world_def)
  show ?thesis
    by (simp add: save_transactions_json_def sort_transactions_def h three_keys Let_def)
       (simp add: three_world_def dated_def)
qed

theorem C5_witness:
  "\<exists>w' objs.
     save_transactions_json three_world = Inr (w', objs) \<and>
     Transaction_all w' = [1, 2, 0] \<and> map transaction_id (heap w') = [3, 1, 2]"
proof -
  have h: "heap three_world ! 0 = dated ''06.01.2023'' 1" "heap three_world ! 1 = dated ''05.01.2023'' 2"
    "heap three_world ! 2 = dated ''05.01.2023'' 3" "Transaction_all three_world = [0, 1, 2]"
    "length (heap three_world) = 3" "heap three_world ! Suc 0 = dated ''05.01.2023'' 2"
    by (simp_all add: three_world_def)
  have a: "distinct (Transaction_all three_world)"
    and b: "\<forall>a\<in>set (Transaction_all three_world). a < length (heap three_world)"
    and c: "\<forall>a\<in>set (Transaction_all three_world). \<exists>d. get_sort_key (heap three_world ! a) = Inr d"
    by (simp_all add: h three_keys)
  note sv = three_world_saved
  from C5_sort_then_renumber [OF a b c] obtain w' objs where
    r: "save_transactions_json three_world = Inr (w', objs)"
       "map (\<lambda>a. transaction_id (heap w' ! a)) (Transaction_all w') =
          map int [1..<Suc (length (Transaction_all three_world))]"
    by blast
  from r(1) sv have "Transaction_all w' = [1, 2, 0]" "map transaction_id (heap w') = [3, 1, 2]"
    by (auto simp: dated_def)
  with r(1) show ?thesis by (intro exI [of _ w'] exI [of _ objs]) simp
qed

section \<open>Export and re-import\<close>







section \<open>The amount texts\<close>
































end
